theory Spec2Isabelle
  imports
    Main
    "HOL-Library.AList"
    "HOL-Library.Char_ord"
    "HOL-Library.List_Lexorder"
    "HOL-Library.Product_Lexorder"
    "HOL-Library.Multiset"
begin

section \<open>Values and documents\<close>

text \<open>
  The service of \<^verbatim>\<open>server.js\<close> stores schema-less documents in three collections of a
  document store. A field value is a JSON scalar of a request body, a \<^verbatim>\<open>Date\<close> or an
  \<^verbatim>\<open>ObjectId\<close>. Strings are UTF-8 byte sequences, numbers are integers, a date is the
  number of milliseconds since the epoch and an \<^verbatim>\<open>ObjectId\<close> is the number its twelve
  bytes denote. Nested documents and arrays are outside this model.

  A JavaScript object is an association list; a property is read with \<open>field_of\<close>
  (the first binding of a key counts). The object spread \<^verbatim>\<open>{...o, k: v}\<close> is
  \<open>AList.update k v o\<close>, the rest pattern \<^verbatim>\<open>const {_id, ...rest} = o\<close> is
  \<open>AList.delete ''_id'' o\<close>.
\<close>

datatype bson = BNull | BBool bool | BNum int | BStr string | BDate nat | BOid nat

type_synonym document = "(string \<times> bson) list"

definition field_of :: "string \<Rightarrow> document \<Rightarrow> bson option" where
  "field_of k d = map_of d k"

text \<open>Exceptions that the handlers can meet: reading a property of the undefined
  \<^verbatim>\<open>db\<close>, an \<^verbatim>\<open>ObjectId\<close> constructor given a malformed string or a document the
  driver cannot serialize, and a write the store refuses (duplicate \<^verbatim>\<open>_id\<close>).\<close>

datatype exn = TypeError | BSONError | MongoServerError

subsection \<open>\<^verbatim>\<open>Date.prototype.toISOString\<close>\<close>

fun digits :: "nat \<Rightarrow> nat \<Rightarrow> string" where
  "digits 0 n = []"
| "digits (Suc w) n = digits w (n div 10) @ [char_of (48 + n mod 10)]"

text \<open>The calendar date of a day number (days since 1970-01-01), proleptic Gregorian.\<close>

definition civil_from_days :: "nat \<Rightarrow> nat \<times> nat \<times> nat" where
  "civil_from_days z =
     (let z' = z + 719468;
          era = z' div 146097;
          doe = z' mod 146097;
          yoe = (doe + doe div 36524 - doe div 1460 - doe div 146096) div 365;
          doy = doe + yoe div 100 - (365 * yoe + yoe div 4);
          mp = (5 * doy + 2) div 153;
          d = doy + 1 - (153 * mp + 2) div 5;
          m = (if mp < 10 then mp + 3 else mp - 9);
          y = yoe + era * 400 + (if m \<le> 2 then 1 else 0)
      in (y, m, d))"

definition toISOString :: "nat \<Rightarrow> string" where
  "toISOString t =
     (case civil_from_days (t div 86400000) of (y, m, d) \<Rightarrow>
        (if y \<le> 9999 then digits 4 y else CHR ''+'' # digits 6 y) @ ''-'' @ digits 2 m @ ''-'' @
        digits 2 d @ ''T'' @ digits 2 (t div 3600000 mod 24) @ '':'' @
        digits 2 (t div 60000 mod 60) @ '':'' @ digits 2 (t div 1000 mod 60) @ ''.'' @
        digits 3 (t mod 1000) @ ''Z'')"

subsection \<open>The \<^verbatim>\<open>ObjectId\<close> constructor\<close>

text \<open>\<^verbatim>\<open>new ObjectId(s)\<close> on a string: twenty-four hexadecimal characters, of either
  case, give the identifier; any other string throws. (Older versions of the driver
  also take a string of twelve bytes. The theorems below only ask whether the
  constructor returns or throws; their examples use strings on which all versions
  agree.)\<close>

definition hex_digit :: "char \<Rightarrow> nat option" where
  "hex_digit c =
     (let n = (of_char c :: nat) in
      if 48 \<le> n \<and> n \<le> 57 then Some (n - 48)
      else if 97 \<le> n \<and> n \<le> 102 then Some (n - 87)
      else if 65 \<le> n \<and> n \<le> 70 then Some (n - 55)
      else None)"

fun hex_value :: "nat \<Rightarrow> string \<Rightarrow> nat option" where
  "hex_value acc [] = Some acc"
| "hex_value acc (c # cs) =
     (case hex_digit c of None \<Rightarrow> None | Some d \<Rightarrow> hex_value (16 * acc + d) cs)"

definition ObjectId :: "string \<Rightarrow> exn + nat" where
  "ObjectId s =
     (if length s = 24 then
        (case hex_value 0 s of None \<Rightarrow> Inl BSONError | Some n \<Rightarrow> Inr n)
      else Inl BSONError)"

section \<open>The document store\<close>

subsection \<open>Queries and sorting\<close>

text \<open>A query document of equality conditions, such as \<^verbatim>\<open>{ activo: true }\<close>. A
  condition on \<^verbatim>\<open>null\<close> also matches a document without the field.\<close>

definition matches :: "document \<Rightarrow> document \<Rightarrow> bool" where
  "matches q d =
     list_all (\<lambda>(k, v). if v = BNull then field_of k d \<in> {None, Some BNull}
                         else field_of k d = Some v) q"

text \<open>\<^verbatim>\<open>collection.find(q)\<close>: the documents that match, in the collection's order.\<close>

definition find_where :: "document \<Rightarrow> document list \<Rightarrow> document list" where
  "find_where q coll = filter (matches q) coll"

text \<open>The store's comparison order: values of different types compare by type
  (null and missing, numbers, strings, identifiers, booleans, dates, in this order),
  values of one type by value, strings byte by byte.\<close>

type_synonym order_key = "nat \<times> int \<times> string"

fun bson_key :: "bson option \<Rightarrow> order_key" where
  "bson_key None = (2, 0, [])"
| "bson_key (Some BNull) = (2, 0, [])"
| "bson_key (Some (BNum n)) = (3, n, [])"
| "bson_key (Some (BStr s)) = (4, 0, s)"
| "bson_key (Some (BOid n)) = (8, int n, [])"
| "bson_key (Some (BBool b)) = (9, (if b then 1 else 0), [])"
| "bson_key (Some (BDate t)) = (10, int t, [])"

text \<open>\<^verbatim>\<open>.sort({ k: -1 })\<close> and \<^verbatim>\<open>.sort({ k1: 1, k2: 1 })\<close>. The store promises no
  order among documents whose keys are equal; the model picks one.\<close>

definition sort_desc :: "string \<Rightarrow> document list \<Rightarrow> document list" where
  "sort_desc k coll = rev (sort_key (\<lambda>d. bson_key (field_of k d)) coll)"

definition sort_asc2 :: "string \<Rightarrow> string \<Rightarrow> document list \<Rightarrow> document list" where
  "sort_asc2 k1 k2 coll =
     sort_key (\<lambda>d. (bson_key (field_of k1 d), bson_key (field_of k2 d))) coll"

subsection \<open>Reads and writes of one collection\<close>

definition countDocuments :: "document list \<Rightarrow> nat" where
  "countDocuments coll = length coll"

definition findOne :: "document \<Rightarrow> document list \<Rightarrow> document option" where
  "findOne q coll = (case find_where q coll of [] \<Rightarrow> None | d # _ \<Rightarrow> Some d)"

text \<open>The driver gives every document without an \<^verbatim>\<open>_id\<close> (or with a null one) a
  generated \<^verbatim>\<open>ObjectId\<close> before it sends the documents. Generated identifiers differ
  from one another inside a process: the model draws them from a counter.\<close>

fun prepareDocs :: "nat \<Rightarrow> document list \<Rightarrow> document list \<times> nat" where
  "prepareDocs ctr [] = ([], ctr)"
| "prepareDocs ctr (d # ds) =
     (if field_of ''_id'' d = None \<or> field_of ''_id'' d = Some BNull then
        (case prepareDocs (Suc ctr) ds of
           (ds', ctr') \<Rightarrow> (AList.update ''_id'' (BOid ctr) d # ds', ctr'))
      else
        (case prepareDocs ctr ds of (ds', ctr') \<Rightarrow> (d # ds', ctr')))"

text \<open>The store inserts the documents in order and stops at the first whose
  \<^verbatim>\<open>_id\<close> is already in the collection (the unique index on \<^verbatim>\<open>_id\<close>); the documents
  before it stay inserted. The flag tells whether all were inserted.\<close>

fun insert_ordered :: "document list \<Rightarrow> document list \<Rightarrow> document list \<times> bool" where
  "insert_ordered coll [] = (coll, True)"
| "insert_ordered coll (d # ds) =
     (if field_of ''_id'' d \<in> set (map (field_of ''_id'') coll) then (coll, False)
      else insert_ordered (coll @ [d]) ds)"

text \<open>Before it sends the documents the driver serializes them, and throws a
  \<^verbatim>\<open>BSONError\<close> on a field name that holds a NUL character; nothing is inserted then.\<close>

definition serializable :: "document \<Rightarrow> bool" where
  "serializable d = list_all (\<lambda>kv. CHR 0x00 \<notin> set (fst kv)) d"

definition insertMany ::
  "nat \<Rightarrow> document list \<Rightarrow> document list \<Rightarrow> (document list \<times> nat) \<times> (exn + unit)" where
  "insertMany ctr docs coll =
     (case prepareDocs ctr docs of (docs', ctr') \<Rightarrow>
        if \<not> list_all serializable docs' then ((coll, ctr'), Inl BSONError)
        else
          (case insert_ordered coll docs' of (coll', ok) \<Rightarrow>
             ((coll', ctr'), if ok then Inr () else Inl MongoServerError)))"

text \<open>\<open>insertOne\<close> returns the inserted \<^verbatim>\<open>_id\<close>.\<close>

definition insertOne ::
  "nat \<Rightarrow> document \<Rightarrow> document list \<Rightarrow> (document list \<times> nat) \<times> (exn + bson)" where
  "insertOne ctr doc coll =
     (case prepareDocs ctr [doc] of (docs', ctr') \<Rightarrow>
        if \<not> list_all serializable docs' then ((coll, ctr'), Inl BSONError)
        else
          (case insert_ordered coll docs' of (coll', ok) \<Rightarrow>
             ((coll', ctr'),
              if ok then Inr (case field_of ''_id'' (hd docs') of Some v \<Rightarrow> v | None \<Rightarrow> BNull)
              else Inl MongoServerError)))"

text \<open>\<^verbatim>\<open>updateOne(q, { $set: sets })\<close> changes the first document that matches and
  returns the new collection with \<^verbatim>\<open>matchedCount\<close>. The names in \<open>sets\<close> are taken as
  top-level field names.\<close>

fun updateOne :: "document \<Rightarrow> document \<Rightarrow> document list \<Rightarrow> document list \<times> nat" where
  "updateOne q sets [] = ([], 0)"
| "updateOne q sets (d # ds) =
     (if matches q d then (AList.merge d sets # ds, 1)
      else (case updateOne q sets ds of (ds', n) \<Rightarrow> (d # ds', n)))"

text \<open>A top-level field name: not empty, without a dot or a NUL, not starting with a
  dollar sign. The store reads any other name in a \<^verbatim>\<open>$set\<close> as a path or refuses it.\<close>

definition top_level_name :: "string \<Rightarrow> bool" where
  "top_level_name k =
     (case k of [] \<Rightarrow> False
      | c # cs \<Rightarrow> c \<noteq> CHR ''$'' \<and> CHR ''.'' \<notin> set k \<and> CHR 0x00 \<notin> set k)"

section \<open>The server\<close>

record database =
  huespedes :: "document list"
  transacciones :: "document list"
  productos :: "document list"

text \<open>The module's state: the global \<^verbatim>\<open>db\<close> (undefined until a connection is made),
  the driver's source of generated identifiers, and whether \<^verbatim>\<open>app.listen\<close> was called.\<close>

record server =
  db :: "database option"
  oid_counter :: nat
  listening :: bool

text \<open>A body sent with \<^verbatim>\<open>res.json\<close>: one object or an array of objects, as the
  handler passes it (the JSON text then renders an \<^verbatim>\<open>ObjectId\<close> as its hexadecimal
  string and a \<^verbatim>\<open>Date\<close> as its ISO string).\<close>

datatype payload = Doc document | Docs "document list"

record response =
  status :: nat
  body :: payload

text \<open>The handlers read the clock with \<^verbatim>\<open>new Date()\<close>; \<open>clock n\<close> is what the
  \<open>n\<close>-th reading of one invocation returns, in milliseconds since the epoch.\<close>

type_synonym clock = "nat \<Rightarrow> nat"

text \<open>\<^verbatim>\<open>db.collection(...)\<close> and \<^verbatim>\<open>db.command(...)\<close> throw a \<^verbatim>\<open>TypeError\<close> while
  \<^verbatim>\<open>db\<close> is undefined.\<close>

definition db_of :: "server \<Rightarrow> exn + database" where
  "db_of s = (case db s of None \<Rightarrow> Inl TypeError | Some d \<Rightarrow> Inr d)"

text \<open>\<^verbatim>\<open>res.status(500).json({ error: msg })\<close> and \<^verbatim>\<open>res.status(404).json({ error: msg })\<close>.\<close>

definition error_500 :: "string \<Rightarrow> response" where
  "error_500 msg = \<lparr>status = 500, body = Doc [(''error'', BStr msg)]\<rparr>"

definition error_404 :: "string \<Rightarrow> response" where
  "error_404 msg = \<lparr>status = 404, body = Doc [(''error'', BStr msg)]\<rparr>"

definition huesped_no_encontrado :: string where
  "huesped_no_encontrado = ''Hu'' @ [CHR 0xC3, CHR 0xA9] @ ''sped no encontrado''"

subsection \<open>Seeding the catalogue\<close>

definition producto :: "string \<Rightarrow> int \<Rightarrow> string \<Rightarrow> string \<Rightarrow> document" where
  "producto n p c i =
     [(''nombre'', BStr n), (''precio'', BNum p), (''categoria'', BStr c),
      (''icono'', BStr i), (''activo'', BBool True)]"

definition defaultProductos :: "document list" where
  "defaultProductos =
     [producto (''Hamburguesa Cl'' @ [CHR 0xC3, CHR 0xA1] @ ''sica'') 150 ''alimentos''
        [CHR 0xF0, CHR 0x9F, CHR 0x8D, CHR 0x94],
      producto ''Pizza Margarita'' 180 ''alimentos'' [CHR 0xF0, CHR 0x9F, CHR 0x8D, CHR 0x95],
      producto ''Ensalada Caesar'' 120 ''alimentos'' [CHR 0xF0, CHR 0x9F, CHR 0xA5, CHR 0x97],
      producto ''Cerveza Corona'' 60 ''bebidas'' [CHR 0xF0, CHR 0x9F, CHR 0x8D, CHR 0xBA],
      producto ''Margarita'' 120 ''bebidas'' [CHR 0xF0, CHR 0x9F, CHR 0x8D, CHR 0xB9],
      producto ''Agua Mineral'' 35 ''bebidas'' [CHR 0xF0, CHR 0x9F, CHR 0x92, CHR 0xA7],
      producto (''Caf'' @ [CHR 0xC3, CHR 0xA9] @ '' Americano'') 45 ''bebidas''
        [CHR 0xE2, CHR 0x98, CHR 0x95],
      producto ''Renta Kayak 1hr'' 200 ''deportes'' [CHR 0xF0, CHR 0x9F, CHR 0x9A, CHR 0xA3],
      producto ''Tabla Paddle 1hr'' 250 ''deportes'' [CHR 0xF0, CHR 0x9F, CHR 0x8F, CHR 0x84],
      producto ''Masaje Relajante'' 450 ''spa'' [CHR 0xF0, CHR 0x9F, CHR 0x92, CHR 0x86]]"

text \<open>The argument of \<^verbatim>\<open>insertMany\<close>: the \<open>j\<close>-th default product (from 0) with
  \<^verbatim>\<open>createdAt\<close> and \<^verbatim>\<open>updatedAt\<close> from the clock readings \<open>2 * j\<close> and \<open>2 * j + 1\<close>.\<close>

definition stamped :: "clock \<Rightarrow> nat \<times> document \<Rightarrow> document" where
  "stamped clock jp =
     AList.update ''updatedAt'' (BDate (clock (2 * fst jp + 1)))
       (AList.update ''createdAt'' (BDate (clock (2 * fst jp))) (snd jp))"

definition seed_docs :: "clock \<Rightarrow> document list" where
  "seed_docs clock = map (stamped clock) (enumerate 0 defaultProductos)"

text \<open>\<open>ensureProductosSeeded\<close> returns the state it leaves and whether it threw.\<close>

definition ensureProductosSeeded :: "clock \<Rightarrow> server \<Rightarrow> server \<times> (exn + unit)" where
  "ensureProductosSeeded clock s =
     (case db s of
        None \<Rightarrow> (s, Inr ())
      | Some d \<Rightarrow>
          if countDocuments (productos d) = 0 then
            (case insertMany (oid_counter s) (seed_docs clock) (productos d) of
               ((coll', ctr'), r) \<Rightarrow>
                 (s\<lparr>db := Some (d\<lparr>productos := coll'\<rparr>), oid_counter := ctr'\<rparr>, r))
          else (s, Inr ()))"

subsection \<open>Start-up\<close>

text \<open>\<open>connectDB\<close>: with an empty \<^verbatim>\<open>MONGODB_URI\<close> it returns at once. Otherwise it
  connects: \<open>remote\<close> is the database found there, \<open>None\<close> when
  \<^verbatim>\<open>client.connect()\<close> rejects; the ping after a successful connect is taken to
  succeed. Every exception ends in the \<^verbatim>\<open>catch\<close> block, which only logs.\<close>

definition connectDB :: "string \<Rightarrow> database option \<Rightarrow> clock \<Rightarrow> server \<Rightarrow> server" where
  "connectDB uri remote clock s =
     (if uri = [] then s
      else (case remote of
              None \<Rightarrow> s
            | Some d \<Rightarrow> fst (ensureProductosSeeded clock (s\<lparr>db := Some d\<rparr>))))"

text \<open>\<^verbatim>\<open>connectDB().then(() => app.listen(PORT, ...))\<close>, from the state of a fresh process.\<close>

definition start :: "string \<Rightarrow> database option \<Rightarrow> clock \<Rightarrow> nat \<Rightarrow> server" where
  "start uri remote clock ctr =
     (connectDB uri remote clock \<lparr>db = None, oid_counter = ctr, listening = False\<rparr>)
       \<lparr>listening := True\<rparr>"

subsection \<open>Guests\<close>

text \<open>Every handler is one \<^verbatim>\<open>try\<close> block whose \<^verbatim>\<open>catch\<close> answers 500 with a fixed
  message. A handler returns its response and the state it leaves.\<close>

definition get_root :: response where
  "get_root =
     \<lparr>status = 200,
      body = Doc [(''status'', BStr ''ok''),
                  (''message'', BStr (''Bah'' @ [CHR 0xC3, CHR 0xAD] @ ''a Escondida Cashless API'')),
                  (''version'', BStr ''1.0.0'')]\<rparr>"

definition get_api_huespedes :: "server \<Rightarrow> response" where
  "get_api_huespedes s =
     (case db_of s of
        Inl e \<Rightarrow> error_500 (''Error al obtener hu'' @ [CHR 0xC3, CHR 0xA9] @ ''spedes'')
      | Inr d \<Rightarrow>
          \<lparr>status = 200,
           body = Docs (sort_desc ''fechaRegistro''
                          (find_where [(''activo'', BBool True)] (huespedes d)))\<rparr>)"

definition get_api_huespedes_id :: "server \<Rightarrow> string \<Rightarrow> response" where
  "get_api_huespedes_id s param_id =
     (case db_of s of
        Inl e \<Rightarrow> error_500 (''Error al obtener hu'' @ [CHR 0xC3, CHR 0xA9] @ ''sped'')
      | Inr d \<Rightarrow>
          (case ObjectId param_id of
             Inl e \<Rightarrow> error_500 (''Error al obtener hu'' @ [CHR 0xC3, CHR 0xA9] @ ''sped'')
           | Inr oid \<Rightarrow>
               (case findOne [(''_id'', BOid oid)] (huespedes d) of
                  None \<Rightarrow> error_404 huesped_no_encontrado
                | Some huesped \<Rightarrow> \<lparr>status = 200, body = Doc huesped\<rparr>)))"

definition post_api_huespedes :: "clock \<Rightarrow> server \<Rightarrow> document \<Rightarrow> response \<times> server" where
  "post_api_huespedes clock s req_body =
     (let nuevoHuesped =
            AList.update ''createdAt'' (BDate (clock 1))
              (AList.update ''activo'' (BBool True)
                 (AList.update ''fechaRegistro'' (BStr (toISOString (clock 0))) req_body))
      in case db_of s of
           Inl e \<Rightarrow> (error_500 (''Error al crear hu'' @ [CHR 0xC3, CHR 0xA9] @ ''sped''), s)
         | Inr d \<Rightarrow>
             (case insertOne (oid_counter s) nuevoHuesped (huespedes d) of
                ((coll', ctr'), r) \<Rightarrow>
                  (case r of
                     Inl e \<Rightarrow> error_500 (''Error al crear hu'' @ [CHR 0xC3, CHR 0xA9] @ ''sped'')
                   | Inr insertedId \<Rightarrow>
                       \<lparr>status = 201,
                        body = Doc [(''success'', BBool True), (''id'', insertedId),
                                    (''message'', BStr (''Hu'' @ [CHR 0xC3, CHR 0xA9] @
                                       ''sped registrado exitosamente''))]\<rparr>,
                   s\<lparr>db := Some (d\<lparr>huespedes := coll'\<rparr>), oid_counter := ctr'\<rparr>)))"

definition put_api_huespedes_id ::
  "clock \<Rightarrow> server \<Rightarrow> string \<Rightarrow> document \<Rightarrow> response \<times> server" where
  "put_api_huespedes_id clock s param_id req_body =
     (let updateData = AList.delete ''_id'' req_body
      in case db_of s of
           Inl e \<Rightarrow> (error_500 (''Error al actualizar hu'' @ [CHR 0xC3, CHR 0xA9] @ ''sped''), s)
         | Inr d \<Rightarrow>
             (case ObjectId param_id of
                Inl e \<Rightarrow>
                  (error_500 (''Error al actualizar hu'' @ [CHR 0xC3, CHR 0xA9] @ ''sped''), s)
              | Inr oid \<Rightarrow>
                  (case updateOne [(''_id'', BOid oid)]
                          (AList.update ''updatedAt'' (BDate (clock 0)) updateData)
                          (huespedes d) of
                     (coll', matchedCount) \<Rightarrow>
                       (if matchedCount = 0 then error_404 huesped_no_encontrado
                        else \<lparr>status = 200,
                              body = Doc [(''success'', BBool True),
                                          (''message'', BStr (''Hu'' @ [CHR 0xC3, CHR 0xA9] @
                                             ''sped actualizado exitosamente''))]\<rparr>,
                        s\<lparr>db := Some (d\<lparr>huespedes := coll'\<rparr>)\<rparr>))))"

definition delete_api_huespedes_id :: "clock \<Rightarrow> server \<Rightarrow> string \<Rightarrow> response \<times> server" where
  "delete_api_huespedes_id clock s param_id =
     (case db_of s of
        Inl e \<Rightarrow> (error_500 (''Error al eliminar hu'' @ [CHR 0xC3, CHR 0xA9] @ ''sped''), s)
      | Inr d \<Rightarrow>
          (case ObjectId param_id of
             Inl e \<Rightarrow> (error_500 (''Error al eliminar hu'' @ [CHR 0xC3, CHR 0xA9] @ ''sped''), s)
           | Inr oid \<Rightarrow>
               (case updateOne [(''_id'', BOid oid)]
                       [(''activo'', BBool False), (''deletedAt'', BDate (clock 0))]
                       (huespedes d) of
                  (coll', matchedCount) \<Rightarrow>
                    (if matchedCount = 0 then error_404 huesped_no_encontrado
                     else \<lparr>status = 200,
                           body = Doc [(''success'', BBool True),
                                       (''message'', BStr (''Hu'' @ [CHR 0xC3, CHR 0xA9] @
                                          ''sped eliminado exitosamente''))]\<rparr>,
                     s\<lparr>db := Some (d\<lparr>huespedes := coll'\<rparr>)\<rparr>))))"

subsection \<open>Transactions\<close>

definition get_api_transacciones :: "server \<Rightarrow> response" where
  "get_api_transacciones s =
     (case db_of s of
        Inl e \<Rightarrow> error_500 ''Error al obtener transacciones''
      | Inr d \<Rightarrow> \<lparr>status = 200, body = Docs (sort_desc ''fecha'' (find_where [] (transacciones d)))\<rparr>)"

definition get_api_transacciones_huesped :: "server \<Rightarrow> string \<Rightarrow> response" where
  "get_api_transacciones_huesped s huespedId =
     (case db_of s of
        Inl e \<Rightarrow> error_500 ''Error al obtener transacciones''
      | Inr d \<Rightarrow>
          \<lparr>status = 200,
           body = Docs (sort_desc ''fecha''
                          (find_where [(''huespedId'', BStr huespedId)] (transacciones d)))\<rparr>)"

definition post_api_transacciones :: "clock \<Rightarrow> server \<Rightarrow> document \<Rightarrow> response \<times> server" where
  "post_api_transacciones clock s req_body =
     (let nuevaTransaccion =
            AList.update ''createdAt'' (BDate (clock 1))
              (AList.update ''fecha'' (BStr (toISOString (clock 0))) req_body)
      in case db_of s of
           Inl e \<Rightarrow> (error_500 (''Error al crear transacci'' @ [CHR 0xC3, CHR 0xB3] @ ''n''), s)
         | Inr d \<Rightarrow>
             (case insertOne (oid_counter s) nuevaTransaccion (transacciones d) of
                ((coll', ctr'), r) \<Rightarrow>
                  (case r of
                     Inl e \<Rightarrow> error_500 (''Error al crear transacci'' @ [CHR 0xC3, CHR 0xB3] @ ''n'')
                   | Inr insertedId \<Rightarrow>
                       \<lparr>status = 201,
                        body = Doc [(''success'', BBool True), (''id'', insertedId),
                                    (''message'', BStr (''Transacci'' @ [CHR 0xC3, CHR 0xB3] @
                                       ''n registrada exitosamente''))]\<rparr>,
                   s\<lparr>db := Some (d\<lparr>transacciones := coll'\<rparr>), oid_counter := ctr'\<rparr>)))"

subsection \<open>Products\<close>

text \<open>\<^verbatim>\<open>req.query.categoria\<close> is \<open>None\<close> when the query string has no such parameter.
  The empty string is falsy in \<^verbatim>\<open>categoria && categoria !== 'todos'\<close>.\<close>

definition filtro :: "string option \<Rightarrow> document" where
  "filtro categoria =
     (case categoria of
        None \<Rightarrow> [(''activo'', BBool True)]
      | Some c \<Rightarrow>
          if c \<noteq> [] \<and> c \<noteq> ''todos'' then [(''categoria'', BStr c), (''activo'', BBool True)]
          else [(''activo'', BBool True)])"

definition get_api_productos :: "server \<Rightarrow> string option \<Rightarrow> response" where
  "get_api_productos s categoria =
     (case db_of s of
        Inl e \<Rightarrow> error_500 ''Error al obtener productos''
      | Inr d \<Rightarrow>
          \<lparr>status = 200,
           body = Docs (sort_asc2 ''categoria'' ''nombre''
                          (find_where (filtro categoria) (productos d)))\<rparr>)"

text \<open>\<^verbatim>\<open>req.body.activo ?? true\<close>: the default stands in for an absent or null
  \<^verbatim>\<open>activo\<close> only.\<close>

definition nullish_or :: "bson option \<Rightarrow> bson \<Rightarrow> bson" where
  "nullish_or v dflt = (case v of None \<Rightarrow> dflt | Some BNull \<Rightarrow> dflt | Some x \<Rightarrow> x)"

definition post_api_productos :: "clock \<Rightarrow> server \<Rightarrow> document \<Rightarrow> response \<times> server" where
  "post_api_productos clock s req_body =
     (let nuevoProducto =
            AList.update ''updatedAt'' (BDate (clock 1))
              (AList.update ''createdAt'' (BDate (clock 0))
                 (AList.update ''activo''
                    (nullish_or (field_of ''activo'' req_body) (BBool True)) req_body))
      in case db_of s of
           Inl e \<Rightarrow> (error_500 ''Error al crear producto'', s)
         | Inr d \<Rightarrow>
             (case insertOne (oid_counter s) nuevoProducto (productos d) of
                ((coll', ctr'), r) \<Rightarrow>
                  (case r of
                     Inl e \<Rightarrow> error_500 ''Error al crear producto''
                   | Inr insertedId \<Rightarrow>
                       \<lparr>status = 201,
                        body = Doc [(''success'', BBool True), (''id'', insertedId),
                                    (''message'', BStr ''Producto creado exitosamente'')]\<rparr>,
                   s\<lparr>db := Some (d\<lparr>productos := coll'\<rparr>), oid_counter := ctr'\<rparr>)))"

subsection \<open>Ping and routing\<close>

definition get_api_ping :: "clock \<Rightarrow> server \<Rightarrow> response" where
  "get_api_ping clock s =
     (case db_of s of
        Inl e \<Rightarrow>
          \<lparr>status = 500,
           body = Doc [(''success'', BBool False),
                       (''error'', BStr (''Error de conexi'' @ [CHR 0xC3, CHR 0xB3] @
                          ''n a MongoDB''))]\<rparr>
      | Inr d \<Rightarrow>
          \<lparr>status = 200,
           body = Doc [(''success'', BBool True),
                       (''message'', BStr (''Conexi'' @ [CHR 0xC3, CHR 0xB3] @
                          ''n a MongoDB exitosa'')),
                       (''timestamp'', BStr (toISOString (clock 0)))]\<rparr>)"

datatype request =
    GET_root
  | GET_huespedes
  | GET_huespedes_id string
  | POST_huespedes document
  | PUT_huespedes_id string document
  | DELETE_huespedes_id string
  | GET_transacciones
  | GET_transacciones_huesped string
  | POST_transacciones document
  | GET_productos "string option"
  | POST_productos document
  | GET_ping

fun route :: "clock \<Rightarrow> server \<Rightarrow> request \<Rightarrow> response \<times> server" where
  "route clock s GET_root = (get_root, s)"
| "route clock s GET_huespedes = (get_api_huespedes s, s)"
| "route clock s (GET_huespedes_id i) = (get_api_huespedes_id s i, s)"
| "route clock s (POST_huespedes b) = post_api_huespedes clock s b"
| "route clock s (PUT_huespedes_id i b) = put_api_huespedes_id clock s i b"
| "route clock s (DELETE_huespedes_id i) = delete_api_huespedes_id clock s i"
| "route clock s GET_transacciones = (get_api_transacciones s, s)"
| "route clock s (GET_transacciones_huesped h) = (get_api_transacciones_huesped s h, s)"
| "route clock s (POST_transacciones b) = post_api_transacciones clock s b"
| "route clock s (GET_productos c) = (get_api_productos s c, s)"
| "route clock s (POST_productos b) = post_api_productos clock s b"
| "route clock s GET_ping = (get_api_ping clock s, s)"

text \<open>The server handles the requests of a list one after the other, each with its
  own clock.\<close>

fun serve :: "server \<Rightarrow> (clock \<times> request) list \<Rightarrow> server" where
  "serve s [] = s"
| "serve s (cr # rest) = serve (snd (route (fst cr) s (snd cr))) rest"

text \<open>Exactly one guest document has the identifier \<open>i\<close>.\<close>

definition sole_guest :: "nat \<Rightarrow> server \<Rightarrow> bool" where
  "sole_guest i s =
     (case db s of
        None \<Rightarrow> False
      | Some d \<Rightarrow> length (filter (\<lambda>g. field_of ''_id'' g = Some (BOid i)) (huespedes d)) = 1)"

subsection \<open>What an error message says\<close>

fun starts_with :: "string \<Rightarrow> string \<Rightarrow> bool" where
  "starts_with [] s = True"
| "starts_with (p # ps) [] = False"
| "starts_with (p # ps) (c # cs) = (p = c \<and> starts_with ps cs)"

fun occurs_in :: "string \<Rightarrow> string \<Rightarrow> bool" where
  "occurs_in w [] = (w = [])"
| "occurs_in w (c # cs) = (starts_with w (c # cs) \<or> occurs_in w cs)"

text \<open>A message names the database when it has one of these words in it.\<close>

definition names_database :: "string \<Rightarrow> bool" where
  "names_database msg =
     (occurs_in ''MongoDB'' msg \<or> occurs_in ''base de datos'' msg \<or> occurs_in ''database'' msg)"

section \<open>Lemmas on documents and on the store\<close>

lemma field_of_update:
  "field_of k (AList.update k' v d) = (if k = k' then Some v else field_of k d)"
  by (simp add: field_of_def update_conv')

lemma field_of_delete:
  "field_of k (AList.delete k' d) = (if k = k' then None else field_of k d)"
  by (simp add: field_of_def delete_conv')

lemma field_of_merge:
  "field_of k (AList.merge d sets) =
     (case field_of k sets of None \<Rightarrow> field_of k d | Some v \<Rightarrow> Some v)"
  by (simp add: field_of_def merge_conv' map_add_def split: option.split)

lemma serializable_iff: "serializable d \<longleftrightarrow> (\<forall>k\<in>fst ` set d. CHR 0x00 \<notin> set k)"
  by (auto simp: serializable_def list_all_iff)

lemma serializable_update:
  "serializable (AList.update k v d) \<longleftrightarrow> CHR 0x00 \<notin> set k \<and> serializable d"
  by (simp add: serializable_iff dom_update)

lemma insertOne_cases:
  "insertOne ctr doc coll =
     (let fresh = (field_of ''_id'' doc = None \<or> field_of ''_id'' doc = Some BNull);
          doc' = (if fresh then AList.update ''_id'' (BOid ctr) doc else doc);
          ctr' = (if fresh then Suc ctr else ctr)
      in if \<not> serializable doc' then ((coll, ctr'), Inl BSONError)
         else if field_of ''_id'' doc' \<in> set (map (field_of ''_id'') coll)
         then ((coll, ctr'), Inl MongoServerError)
         else ((coll @ [doc'], ctr'),
               Inr (case field_of ''_id'' doc' of Some v \<Rightarrow> v | None \<Rightarrow> BNull)))"
  by (simp add: insertOne_def Let_def)

lemma insertOne_Inr:
  assumes "insertOne ctr doc coll = ((coll', ctr'), Inr v)"
  shows "\<exists>doc'. coll' = coll @ [doc'] \<and> field_of ''_id'' doc' = Some v \<and>
           (\<forall>k. k \<noteq> ''_id'' \<longrightarrow> field_of k doc' = field_of k doc) \<and>
           Some v \<notin> field_of ''_id'' ` set coll"
  using assms
  by (auto simp: insertOne_cases Let_def field_of_update split: if_splits option.splits)

lemma insertOne_not_serializable:
  assumes "\<not> serializable doc"
  shows "\<exists>ctr'. insertOne ctr doc coll = ((coll, ctr'), Inl BSONError)"
  using assms by (simp add: insertOne_cases Let_def serializable_update)

text \<open>A body with a NUL in one of its names is refused: the three \<^verbatim>\<open>POST\<close> handlers answer
  500 and store nothing.\<close>

lemma post_not_serializable:
  assumes "\<not> serializable b"
  shows "status (fst (post_api_huespedes clock s b)) = 500 \<and>
         db (snd (post_api_huespedes clock s b)) = db s \<and>
         status (fst (post_api_transacciones clock s b)) = 500 \<and>
         db (snd (post_api_transacciones clock s b)) = db s \<and>
         status (fst (post_api_productos clock s b)) = 500 \<and>
         db (snd (post_api_productos clock s b)) = db s"
proof (cases "db s")
  case None
  then show ?thesis
    by (simp add: post_api_huespedes_def post_api_transacciones_def post_api_productos_def
        db_of_def error_500_def Let_def)
next
  case (Some d)
  have d: "d\<lparr>huespedes := huespedes d\<rparr> = d" "d\<lparr>transacciones := transacciones d\<rparr> = d"
    "d\<lparr>productos := productos d\<rparr> = d"
    by simp_all
  let ?h = "AList.update ''createdAt'' (BDate (clock 1))
              (AList.update ''activo'' (BBool True)
                 (AList.update ''fechaRegistro'' (BStr (toISOString (clock 0))) b))"
  let ?t = "AList.update ''createdAt'' (BDate (clock 1))
              (AList.update ''fecha'' (BStr (toISOString (clock 0))) b)"
  let ?p = "AList.update ''updatedAt'' (BDate (clock 1))
              (AList.update ''createdAt'' (BDate (clock 0))
                 (AList.update ''activo''
                    (nullish_or (field_of ''activo'' b) (BBool True)) b))"
  from assms have n: "\<not> serializable ?h" "\<not> serializable ?t" "\<not> serializable ?p"
    by (simp_all add: serializable_update)
  from insertOne_not_serializable[OF n(1), of "oid_counter s" "huespedes d"]
    insertOne_not_serializable[OF n(2), of "oid_counter s" "transacciones d"]
    insertOne_not_serializable[OF n(3), of "oid_counter s" "productos d"]
  show ?thesis
    using Some d
    by (auto simp: post_api_huespedes_def post_api_transacciones_def post_api_productos_def
        db_of_def error_500_def Let_def)
qed

lemma not_in_ids:
  "Some v \<notin> field_of ''_id'' ` set coll \<Longrightarrow> x \<in> set coll \<Longrightarrow> field_of ''_id'' x \<noteq> Some v"
  by force

section \<open>Creating products and guests\<close>


lemma post_api_huespedes_201:
  assumes "status (fst (post_api_huespedes clock s b)) = 201"
  shows "\<exists>d g v. db s = Some d \<and>
           db (snd (post_api_huespedes clock s b)) = Some (d\<lparr>huespedes := huespedes d @ [g]\<rparr>) \<and>
           body (fst (post_api_huespedes clock s b)) =
             Doc [(''success'', BBool True), (''id'', v),
                  (''message'', BStr (''Hu'' @ [CHR 0xC3, CHR 0xA9] @
                     ''sped registrado exitosamente''))] \<and>
           field_of ''_id'' g = Some v \<and>
           Some v \<notin> field_of ''_id'' ` set (huespedes d) \<and>
           field_of ''fechaRegistro'' g = Some (BStr (toISOString (clock 0))) \<and>
           field_of ''activo'' g = Some (BBool True) \<and>
           field_of ''createdAt'' g = Some (BDate (clock 1)) \<and>
           (\<forall>k. k \<notin> {''_id'', ''fechaRegistro'', ''activo'', ''createdAt''} \<longrightarrow>
                field_of k g = field_of k b)"
proof -
  let ?doc = "AList.update ''createdAt'' (BDate (clock 1))
              (AList.update ''activo'' (BBool True)
                 (AList.update ''fechaRegistro'' (BStr (toISOString (clock 0))) b))"
  from assms obtain d where d: "db s = Some d"
    by (cases "db s") (auto simp: post_api_huespedes_def db_of_def error_500_def Let_def)
  obtain coll' ctr' r where
    ins: "insertOne (oid_counter s) ?doc (huespedes d) = ((coll', ctr'), r)"
    by (metis prod.exhaust)
  with assms d obtain v where r: "r = Inr v"
    by (cases r) (auto simp: post_api_huespedes_def db_of_def error_500_def Let_def)
  from insertOne_Inr[OF ins[unfolded r]] obtain g where
    g: "coll' = huespedes d @ [g]" "field_of ''_id'' g = Some v"
       "\<forall>k. k \<noteq> ''_id'' \<longrightarrow> field_of k g = field_of k ?doc"
       "Some v \<notin> field_of ''_id'' ` set (huespedes d)"
    by blast
  have post: "db (snd (post_api_huespedes clock s b)) = Some (d\<lparr>huespedes := huespedes d @ [g]\<rparr>)"
    using d ins r g(1) by (simp add: post_api_huespedes_def db_of_def Let_def)
  have resp: "body (fst (post_api_huespedes clock s b)) =
             Doc [(''success'', BBool True), (''id'', v),
                  (''message'', BStr (''Hu'' @ [CHR 0xC3, CHR 0xA9] @
                     ''sped registrado exitosamente''))]"
    using d ins r by (simp add: post_api_huespedes_def db_of_def Let_def)
  show ?thesis using d post resp g(2,3,4) by (auto simp: field_of_update)
qed






section \<open>Transactions\<close>



lemma matches_single:
  "v \<noteq> BNull \<Longrightarrow> matches [(k, v)] d = (field_of k d = Some v)"
  by (simp add: matches_def)







section \<open>Seeding\<close>

lemma ensureProductosSeeded_empty:
  assumes "db s = Some d" "countDocuments (productos d) = 0"
  shows "ensureProductosSeeded clock s =
      (s\<lparr>db := Some (d\<lparr>productos :=
            map (\<lambda>(j, p). p @ [(''createdAt'', BDate (clock (2 * j))),
                                (''updatedAt'', BDate (clock (2 * j + 1))),
                                (''_id'', BOid (oid_counter s + j))])
              (enumerate 0 defaultProductos)\<rparr>),
         oid_counter := oid_counter s + 10\<rparr>, Inr ())"
  using assms
  by (simp add: ensureProductosSeeded_def countDocuments_def insertMany_def serializable_def seed_docs_def
      defaultProductos_def producto_def stamped_def field_of_def)

lemma ensureProductosSeeded_nonempty:
  assumes "db s = Some d" "countDocuments (productos d) \<noteq> 0"
  shows "ensureProductosSeeded clock s = (s, Inr ())"
  using assms by (simp add: ensureProductosSeeded_def)

lemma ensureProductosSeeded_no_db:
  assumes "db s = None"
  shows "ensureProductosSeeded clock s = (s, Inr ())"
  using assms by (simp add: ensureProductosSeeded_def)

lemma defaultProductos_fields:
  "length defaultProductos = 10 \<and>
   list_all (\<lambda>p. field_of ''activo'' p = Some (BBool True) \<and> field_of ''categoria'' p \<noteq> None \<and>
                 field_of ''icono'' p \<noteq> None \<and> field_of ''precio'' p \<noteq> None) defaultProductos"
  by (simp add: defaultProductos_def producto_def field_of_def)

lemma ensureProductosSeeded_twice:
  assumes "db s = Some d"
  shows "ensureProductosSeeded clock' (fst (ensureProductosSeeded clock s)) =
           (fst (ensureProductosSeeded clock s), Inr ())"
proof (cases "countDocuments (productos d) = 0")
  case True
  have "length (enumerate 0 defaultProductos) \<noteq> 0"
    using defaultProductos_fields by simp
  then show ?thesis
    using assms True
    by (simp add: ensureProductosSeeded_empty ensureProductosSeeded_nonempty countDocuments_def
        del: length_enumerate)
next
  case False
  with assms show ?thesis
    by (simp add: ensureProductosSeeded_nonempty)
qed

text \<open>
  C3. \<open>ensureProductosSeeded\<close> inserts if and only if the product collection counts zero
  documents. With a database and an empty collection it returns normally and the
  collection becomes the ten default products in order, the \<open>j\<close>-th with
  \<^verbatim>\<open>createdAt\<close> and \<^verbatim>\<open>updatedAt\<close> from the clock readings \<open>2 * j\<close> and \<open>2 * j + 1\<close> and a
  generated \<^verbatim>\<open>_id\<close>; every default product has \<^verbatim>\<open>activo = true\<close>, a \<^verbatim>\<open>categoria\<close>, an
  \<^verbatim>\<open>icono\<close> and a \<^verbatim>\<open>precio\<close>. With a non-empty collection, or without a database, the
  state is unchanged; so a second call after any call changes nothing.
\<close>

theorem ensureProductosSeeded_iff_empty:
  "(db s = None \<longrightarrow> ensureProductosSeeded clock s = (s, Inr ())) \<and>
   (db s = Some d \<and> countDocuments (productos d) \<noteq> 0 \<longrightarrow>
      ensureProductosSeeded clock s = (s, Inr ())) \<and>
   (db s = Some d \<and> countDocuments (productos d) = 0 \<longrightarrow>
      ensureProductosSeeded clock s =
        (s\<lparr>db := Some (d\<lparr>productos :=
              map (\<lambda>(j, p). p @ [(''createdAt'', BDate (clock (2 * j))),
                                  (''updatedAt'', BDate (clock (2 * j + 1))),
                                  (''_id'', BOid (oid_counter s + j))])
                (enumerate 0 defaultProductos)\<rparr>),
           oid_counter := oid_counter s + 10\<rparr>, Inr ())) \<and>
   length defaultProductos = 10 \<and>
   list_all (\<lambda>p. field_of ''activo'' p = Some (BBool True) \<and> field_of ''categoria'' p \<noteq> None \<and>
                 field_of ''icono'' p \<noteq> None \<and> field_of ''precio'' p \<noteq> None) defaultProductos \<and>
   (db s = Some d \<longrightarrow>
      ensureProductosSeeded clock' (fst (ensureProductosSeeded clock s)) =
        (fst (ensureProductosSeeded clock s), Inr ()))"
  using ensureProductosSeeded_no_db[of s clock] ensureProductosSeeded_nonempty[of s d clock]
    ensureProductosSeeded_empty[of s d clock] defaultProductos_fields
    ensureProductosSeeded_twice[of s d clock' clock]
  by blast

theorem ensureProductosSeeded_iff_empty_witness:
  "length (productos (the (db (fst (ensureProductosSeeded (\<lambda>n. 1700000000000 + n)
      \<lparr>db = Some \<lparr>huespedes = [], transacciones = [], productos = []\<rparr>,
       oid_counter = 7, listening = False\<rparr>))))) = 10 \<and>
   ensureProductosSeeded (\<lambda>n. 1800000000000 + n)
     (fst (ensureProductosSeeded (\<lambda>n. 1700000000000 + n)
        \<lparr>db = Some \<lparr>huespedes = [], transacciones = [], productos = []\<rparr>,
         oid_counter = 7, listening = False\<rparr>)) =
     (fst (ensureProductosSeeded (\<lambda>n. 1700000000000 + n)
        \<lparr>db = Some \<lparr>huespedes = [], transacciones = [], productos = []\<rparr>,
         oid_counter = 7, listening = False\<rparr>), Inr ()) \<and>
   ensureProductosSeeded (\<lambda>n. 1700000000000 + n)
      \<lparr>db = Some \<lparr>huespedes = [], transacciones = [],
                  productos = [[(''_id'', BOid 1), (''nombre'', BStr ''Taco'')]]\<rparr>,
       oid_counter = 7, listening = False\<rparr> =
     (\<lparr>db = Some \<lparr>huespedes = [], transacciones = [],
                  productos = [[(''_id'', BOid 1), (''nombre'', BStr ''Taco'')]]\<rparr>,
       oid_counter = 7, listening = False\<rparr>, Inr ())"
proof -
  let ?c = "\<lambda>n::nat. 1700000000000 + n"
  let ?c' = "\<lambda>n::nat. 1800000000000 + n"
  let ?d = "\<lparr>huespedes = [], transacciones = [], productos = []\<rparr>"
  let ?s = "\<lparr>db = Some ?d, oid_counter = 7, listening = False\<rparr>"
  let ?e = "\<lparr>huespedes = [], transacciones = [],
                  productos = [[(''_id'', BOid 1), (''nombre'', BStr ''Taco'')]]\<rparr>"
  let ?t = "\<lparr>db = Some ?e, oid_counter = 7, listening = False\<rparr>"
  have 1: "db ?s = Some ?d \<and> countDocuments (productos ?d) = 0"
    by (simp add: countDocuments_def)
  have 2: "db ?t = Some ?e \<and> countDocuments (productos ?e) \<noteq> 0"
    by (simp add: countDocuments_def)
  from ensureProductosSeeded_iff_empty[of ?s ?c ?d ?c'] 1
  have b: "ensureProductosSeeded ?c' (fst (ensureProductosSeeded ?c ?s)) =
              (fst (ensureProductosSeeded ?c ?s), Inr ())"
    by blast
  from ensureProductosSeeded_iff_empty[of ?s ?c ?d ?c'] 1
  have a: "length (productos (the (db (fst (ensureProductosSeeded ?c ?s))))) = 10"
    by simp
  from ensureProductosSeeded_iff_empty[of ?t ?c ?e ?c'] 2
  have c: "ensureProductosSeeded ?c ?t = (?t, Inr ())"
    by blast
  from a b c show ?thesis by blast
qed

section \<open>Listing products\<close>

lemma sort_asc2_sorted:
  "sorted_wrt (\<lambda>a b. bson_key (field_of k1 a) < bson_key (field_of k1 b) \<or>
                     bson_key (field_of k1 a) = bson_key (field_of k1 b) \<and>
                     bson_key (field_of k2 a) \<le> bson_key (field_of k2 b))
     (sort_asc2 k1 k2 coll)"
proof -
  let ?f = "\<lambda>d. (bson_key (field_of k1 d), bson_key (field_of k2 d))"
  have "sorted (map ?f (sort_key ?f coll))"
    by (rule sorted_sort_key)
  then have "sorted_wrt (\<lambda>a b. ?f a \<le> ?f b) (sort_asc2 k1 k2 coll)"
    by (simp add: sort_asc2_def sorted_map)
  then show ?thesis
    by (rule sorted_wrt_mono_rel[rotated]) auto
qed

lemma mset_sort_asc2: "mset (sort_asc2 k1 k2 coll) = mset coll"
  by (simp add: sort_asc2_def)

lemma find_filtro:
  "find_where (filtro categoria) coll =
     filter (\<lambda>p. field_of ''activo'' p = Some (BBool True) \<and>
                 (case categoria of None \<Rightarrow> True
                  | Some c \<Rightarrow> c = [] \<or> c = ''todos'' \<or> field_of ''categoria'' p = Some (BStr c)))
       coll"
  by (auto simp: find_where_def filtro_def matches_def split: option.split intro: filter_cong)

text \<open>
  C6, as stated, fails for the empty \<^verbatim>\<open>categoria\<close>: \<^verbatim>\<open>GET /api/productos?categoria=\<close>
  returns the active products of all categories, here one of category \<^verbatim>\<open>bebidas\<close>
  next to the one whose category is the empty string.
\<close>

theorem get_productos_empty_categoria_counterexample:
  "get_api_productos
     \<lparr>db = Some \<lparr>huespedes = [], transacciones = [],
                 productos =
                   [[(''_id'', BOid 2), (''nombre'', BStr ''Cerveza''),
                     (''categoria'', BStr ''bebidas''), (''activo'', BBool True)],
                    [(''_id'', BOid 1), (''nombre'', BStr ''Agua''),
                     (''categoria'', BStr []), (''activo'', BBool True)]]\<rparr>,
      oid_counter = 3, listening = True\<rparr> (Some []) =
     \<lparr>status = 200,
      body = Docs [[(''_id'', BOid 1), (''nombre'', BStr ''Agua''),
                    (''categoria'', BStr []), (''activo'', BBool True)],
                   [(''_id'', BOid 2), (''nombre'', BStr ''Cerveza''),
                    (''categoria'', BStr ''bebidas''), (''activo'', BBool True)]]\<rparr> \<and>
   field_of ''categoria''
     [(''_id'', BOid 2), (''nombre'', BStr ''Cerveza''),
      (''categoria'', BStr ''bebidas''), (''activo'', BBool True)] \<noteq> Some (BStr [])"
  by (simp add: get_api_productos_def db_of_def filtro_def find_where_def matches_def sort_asc2_def
      field_of_def)

text \<open>
  C6, amended. On a connected server \<^verbatim>\<open>GET /api/productos\<close> answers 200 with: all
  active products when \<^verbatim>\<open>categoria\<close> is absent, empty or \<^verbatim>\<open>todos\<close>; for any other
  \<^verbatim>\<open>categoria\<close> exactly the active products whose \<^verbatim>\<open>categoria\<close> is that string. Active
  means \<^verbatim>\<open>activo = true\<close>. The list is in ascending order of \<^verbatim>\<open>categoria\<close>, then of
  \<^verbatim>\<open>nombre\<close>.
\<close>

theorem get_productos_listing:
  assumes "db s = Some d"
  shows "\<exists>docs. get_api_productos s categoria = \<lparr>status = 200, body = Docs docs\<rparr> \<and>
     (categoria = None \<or> categoria = Some [] \<or> categoria = Some ''todos'' \<longrightarrow>
        mset docs = mset (filter (\<lambda>p. field_of ''activo'' p = Some (BBool True)) (productos d))) \<and>
     (\<forall>c. categoria = Some c \<and> c \<noteq> [] \<and> c \<noteq> ''todos'' \<longrightarrow>
        mset docs =
          mset (filter (\<lambda>p. field_of ''activo'' p = Some (BBool True) \<and>
                            field_of ''categoria'' p = Some (BStr c)) (productos d))) \<and>
     sorted_wrt (\<lambda>a b. bson_key (field_of ''categoria'' a) < bson_key (field_of ''categoria'' b) \<or>
                        bson_key (field_of ''categoria'' a) = bson_key (field_of ''categoria'' b) \<and>
                        bson_key (field_of ''nombre'' a) \<le> bson_key (field_of ''nombre'' b))
       docs"
proof -
  let ?docs = "sort_asc2 ''categoria'' ''nombre'' (find_where (filtro categoria) (productos d))"
  have r: "get_api_productos s categoria = \<lparr>status = 200, body = Docs ?docs\<rparr>"
    using assms by (simp add: get_api_productos_def db_of_def)
  have a: "mset ?docs = mset (filter (\<lambda>p. field_of ''activo'' p = Some (BBool True)) (productos d))"
    if "categoria = None \<or> categoria = Some [] \<or> categoria = Some ''todos''"
    using that by (auto simp: mset_sort_asc2 find_filtro)
  have b: "mset ?docs =
          mset (filter (\<lambda>p. field_of ''activo'' p = Some (BBool True) \<and>
                            field_of ''categoria'' p = Some (BStr c)) (productos d))"
    if "categoria = Some c \<and> c \<noteq> [] \<and> c \<noteq> ''todos''" for c
  proof -
    have "filter (\<lambda>p. field_of ''activo'' p = Some (BBool True) \<and>
                 (case categoria of None \<Rightarrow> True
                  | Some c \<Rightarrow> c = [] \<or> c = ''todos'' \<or> field_of ''categoria'' p = Some (BStr c)))
            (productos d) =
          filter (\<lambda>p. field_of ''activo'' p = Some (BBool True) \<and>
                            field_of ''categoria'' p = Some (BStr c)) (productos d)"
      using that by (intro filter_cong) auto
    then show ?thesis by (simp add: mset_sort_asc2 find_filtro)
  qed
  from r a b sort_asc2_sorted[of "''categoria''" "''nombre''" "find_where (filtro categoria) (productos d)"]
  show ?thesis
    by (intro exI[of _ ?docs] conjI allI impI)
qed

theorem get_productos_listing_witness:
  "\<exists>docs. get_api_productos
     \<lparr>db = Some \<lparr>huespedes = [], transacciones = [],
                 productos =
                   [[(''_id'', BOid 1), (''nombre'', BStr ''Cerveza''),
                     (''categoria'', BStr ''bebidas''), (''activo'', BBool True)],
                    [(''_id'', BOid 2), (''nombre'', BStr ''Taco''),
                     (''categoria'', BStr ''alimentos''), (''activo'', BBool True)],
                    [(''_id'', BOid 3), (''nombre'', BStr ''Agua''),
                     (''categoria'', BStr ''bebidas''), (''activo'', BBool False)]]\<rparr>,
      oid_counter = 4, listening = True\<rparr> (Some ''bebidas'') =
       \<lparr>status = 200, body = Docs docs\<rparr> \<and>
     mset docs = {#[(''_id'', BOid 1), (''nombre'', BStr ''Cerveza''),
                    (''categoria'', BStr ''bebidas''), (''activo'', BBool True)]#}"
proof -
  let ?d = "\<lparr>huespedes = [], transacciones = [],
                 productos =
                   [[(''_id'', BOid 1), (''nombre'', BStr ''Cerveza''),
                     (''categoria'', BStr ''bebidas''), (''activo'', BBool True)],
                    [(''_id'', BOid 2), (''nombre'', BStr ''Taco''),
                     (''categoria'', BStr ''alimentos''), (''activo'', BBool True)],
                    [(''_id'', BOid 3), (''nombre'', BStr ''Agua''),
                     (''categoria'', BStr ''bebidas''), (''activo'', BBool False)]]\<rparr>"
  let ?s = "\<lparr>db = Some ?d, oid_counter = 4, listening = True\<rparr>"
  have h: "db ?s = Some ?d"
    by simp
  have f: "filter (\<lambda>p. field_of ''activo'' p = Some (BBool True) \<and>
                       field_of ''categoria'' p = Some (BStr ''bebidas'')) (productos ?d) =
           [[(''_id'', BOid 1), (''nombre'', BStr ''Cerveza''),
             (''categoria'', BStr ''bebidas''), (''activo'', BBool True)]]"
    by (simp add: field_of_def)
  from get_productos_listing[OF h, of "Some ''bebidas''"] obtain docs where
    1: "get_api_productos ?s (Some ''bebidas'') = \<lparr>status = 200, body = Docs docs\<rparr>" and
    2: "\<forall>c. Some ''bebidas'' = Some c \<and> c \<noteq> [] \<and> c \<noteq> ''todos'' \<longrightarrow>
        mset docs =
          mset (filter (\<lambda>p. field_of ''activo'' p = Some (BBool True) \<and>
                            field_of ''categoria'' p = Some (BStr c)) (productos ?d))"
    by (elim exE conjE) (rule that)
  from 2 have "mset docs =
          mset (filter (\<lambda>p. field_of ''activo'' p = Some (BBool True) \<and>
                            field_of ''categoria'' p = Some (BStr ''bebidas'')) (productos ?d))"
    by simp
  with f have "mset docs = {#[(''_id'', BOid 1), (''nombre'', BStr ''Cerveza''),
                    (''categoria'', BStr ''bebidas''), (''activo'', BBool True)]#}"
    by simp
  with 1 show ?thesis by blast
qed

section \<open>Guests by identifier\<close>

lemma matches_id: "matches [(''_id'', BOid i)] g = (field_of ''_id'' g = Some (BOid i))"
  by (simp add: matches_def)

lemma updateOne_no_match:
  "\<forall>g\<in>set coll. \<not> matches q g \<Longrightarrow> updateOne q sets coll = (coll, 0)"
  by (induction coll) auto

lemma updateOne_first_match:
  "\<forall>x\<in>set pre. \<not> matches q x \<Longrightarrow> matches q g \<Longrightarrow>
     updateOne q sets (pre @ g # post) = (pre @ AList.merge g sets # post, 1)"
  by (induction pre) auto

lemma findOne_no_match:
  "\<forall>g\<in>set coll. \<not> matches q g \<Longrightarrow> findOne q coll = None"
  by (simp add: findOne_def find_where_def split: list.split)

lemma findOne_first_match:
  "\<forall>x\<in>set pre. \<not> matches q x \<Longrightarrow> matches q g \<Longrightarrow> findOne q (pre @ g # post) = Some g"
  by (simp add: findOne_def find_where_def)

lemma server_db_same: "db s = Some d \<Longrightarrow> s\<lparr>db := Some (d\<lparr>huespedes := huespedes d\<rparr>)\<rparr> = s"
  by (cases s) simp

lemma ObjectId_example_1: "ObjectId ''000000000000000000000001'' = Inr 1"
  by (simp add: ObjectId_def hex_digit_def)

lemma ObjectId_example_2: "ObjectId ''00000000000000000000000b'' = Inr 11"
  by (simp add: ObjectId_def hex_digit_def)

text \<open>
  C8. On a connected server, for a well-formed identifier that no guest document has:
  \<^verbatim>\<open>GET /api/huespedes/:id\<close> answers 404 with the error message \<open>huesped_no_encontrado\<close>,
  and \<^verbatim>\<open>PUT\<close> and \<^verbatim>\<open>DELETE /api/huespedes/:id\<close> answer 404 with the same message and
  leave the state as it was. For \<^verbatim>\<open>PUT\<close> the body's names, \<^verbatim>\<open>_id\<close> apart, are top-level
  field names, so that the store takes the update and reports zero matches.
\<close>

theorem huesped_not_found:
  assumes "db s = Some d" and "ObjectId p = Inr i"
    and "\<forall>g\<in>set (huespedes d). field_of ''_id'' g \<noteq> Some (BOid i)"
    and "list_all top_level_name (map fst (AList.delete ''_id'' b))"
  shows "get_api_huespedes_id s p =
           \<lparr>status = 404,
            body = Doc [(''error'', BStr (''Hu'' @ [CHR 0xC3, CHR 0xA9] @ ''sped no encontrado''))]\<rparr> \<and>
         put_api_huespedes_id clock s p b =
           (\<lparr>status = 404,
             body = Doc [(''error'', BStr (''Hu'' @ [CHR 0xC3, CHR 0xA9] @ ''sped no encontrado''))]\<rparr>,
            s) \<and>
         delete_api_huespedes_id clock s p =
           (\<lparr>status = 404,
             body = Doc [(''error'', BStr (''Hu'' @ [CHR 0xC3, CHR 0xA9] @ ''sped no encontrado''))]\<rparr>,
            s)"
proof -
  have nm: "\<forall>g\<in>set (huespedes d). \<not> matches [(''_id'', BOid i)] g"
    using assms(3) by (simp add: matches_id)
  have 1: "get_api_huespedes_id s p =
           \<lparr>status = 404,
            body = Doc [(''error'', BStr (''Hu'' @ [CHR 0xC3, CHR 0xA9] @ ''sped no encontrado''))]\<rparr>"
    using assms(1,2) findOne_no_match[OF nm]
    by (simp add: get_api_huespedes_id_def db_of_def error_404_def huesped_no_encontrado_def)
  have 2: "put_api_huespedes_id clock s p b =
           (\<lparr>status = 404,
             body = Doc [(''error'', BStr (''Hu'' @ [CHR 0xC3, CHR 0xA9] @ ''sped no encontrado''))]\<rparr>,
            s)"
    using assms(1,2) updateOne_no_match[OF nm] server_db_same[OF assms(1)]
    by (simp add: put_api_huespedes_id_def db_of_def error_404_def huesped_no_encontrado_def)
  have 3: "delete_api_huespedes_id clock s p =
           (\<lparr>status = 404,
             body = Doc [(''error'', BStr (''Hu'' @ [CHR 0xC3, CHR 0xA9] @ ''sped no encontrado''))]\<rparr>,
            s)"
    using assms(1,2) updateOne_no_match[OF nm] server_db_same[OF assms(1)]
    by (simp add: delete_api_huespedes_id_def db_of_def error_404_def huesped_no_encontrado_def)
  from 1 2 3 show ?thesis by (intro conjI)
qed

text \<open>
  C4. On a connected server, \<^verbatim>\<open>PUT /api/huespedes/:id\<close> whose identifier is that of a
  stored guest (the first such document is the one matched) answers 200 and replaces
  that document only: its \<^verbatim>\<open>_id\<close> stays what it was, whatever \<^verbatim>\<open>_id\<close> the body holds,
  \<^verbatim>\<open>updatedAt\<close> is the clock reading, every other field of the body is set, and every
  field the body does not name is unchanged. The body's names, \<^verbatim>\<open>_id\<close> apart, are
  top-level field names.
\<close>

theorem put_huesped_strips_id:
  assumes "db s = Some d" and "ObjectId p = Inr i"
    and "huespedes d = pre @ g # post"
    and "\<forall>x\<in>set pre. field_of ''_id'' x \<noteq> Some (BOid i)"
    and "field_of ''_id'' g = Some (BOid i)"
    and "list_all top_level_name (map fst (AList.delete ''_id'' b))"
  shows "\<exists>g'. put_api_huespedes_id clock s p b =
           (\<lparr>status = 200,
             body = Doc [(''success'', BBool True),
                         (''message'', BStr (''Hu'' @ [CHR 0xC3, CHR 0xA9] @
                            ''sped actualizado exitosamente''))]\<rparr>,
            s\<lparr>db := Some (d\<lparr>huespedes := pre @ g' # post\<rparr>)\<rparr>) \<and>
         field_of ''_id'' g' = field_of ''_id'' g \<and>
         field_of ''updatedAt'' g' = Some (BDate (clock 0)) \<and>
         (\<forall>k. k \<noteq> ''_id'' \<and> k \<noteq> ''updatedAt'' \<longrightarrow>
              field_of k g' = (case field_of k b of Some v \<Rightarrow> Some v | None \<Rightarrow> field_of k g))"
proof -
  let ?sets = "AList.update ''updatedAt'' (BDate (clock 0)) (AList.delete ''_id'' b)"
  let ?g' = "AList.merge g ?sets"
  have nm: "\<forall>x\<in>set pre. \<not> matches [(''_id'', BOid i)] x"
    using assms(4) by (simp add: matches_id)
  have m: "matches [(''_id'', BOid i)] g"
    using assms(5) by (simp add: matches_id)
  have u: "updateOne [(''_id'', BOid i)] ?sets (huespedes d) = (pre @ ?g' # post, 1)"
    unfolding assms(3) by (rule updateOne_first_match[OF nm m])
  have r: "put_api_huespedes_id clock s p b =
           (\<lparr>status = 200,
             body = Doc [(''success'', BBool True),
                         (''message'', BStr (''Hu'' @ [CHR 0xC3, CHR 0xA9] @
                            ''sped actualizado exitosamente''))]\<rparr>,
            s\<lparr>db := Some (d\<lparr>huespedes := pre @ ?g' # post\<rparr>)\<rparr>)"
    using assms(1,2) u by (simp add: put_api_huespedes_id_def db_of_def)
  have f1: "field_of ''_id'' ?g' = field_of ''_id'' g"
    by (simp add: field_of_merge field_of_update field_of_delete)
  have f2: "field_of ''updatedAt'' ?g' = Some (BDate (clock 0))"
    by (simp add: field_of_merge field_of_update)
  have f3: "\<forall>k. k \<noteq> ''_id'' \<and> k \<noteq> ''updatedAt'' \<longrightarrow>
              field_of k ?g' = (case field_of k b of Some v \<Rightarrow> Some v | None \<Rightarrow> field_of k g)"
    by (auto simp: field_of_merge field_of_update field_of_delete split: option.split)
  from r f1 f2 f3 show ?thesis
    by (intro exI[of _ ?g'] conjI)
qed

theorem huesped_not_found_witness:
  "get_api_huespedes_id
     \<lparr>db = Some \<lparr>huespedes = [[(''_id'', BOid 1), (''nombre'', BStr ''Ana''),
                                 (''activo'', BBool True)]],
                 transacciones = [], productos = []\<rparr>,
      oid_counter = 2, listening = True\<rparr> ''00000000000000000000000b'' =
     \<lparr>status = 404,
      body = Doc [(''error'', BStr (''Hu'' @ [CHR 0xC3, CHR 0xA9] @ ''sped no encontrado''))]\<rparr> \<and>
   put_api_huespedes_id (\<lambda>n. 1700000000000 + n)
     \<lparr>db = Some \<lparr>huespedes = [[(''_id'', BOid 1), (''nombre'', BStr ''Ana''),
                                 (''activo'', BBool True)]],
                 transacciones = [], productos = []\<rparr>,
      oid_counter = 2, listening = True\<rparr> ''00000000000000000000000b''
     [(''_id'', BStr ''x''), (''nombre'', BStr ''Bea'')] =
     (\<lparr>status = 404,
       body = Doc [(''error'', BStr (''Hu'' @ [CHR 0xC3, CHR 0xA9] @ ''sped no encontrado''))]\<rparr>,
      \<lparr>db = Some \<lparr>huespedes = [[(''_id'', BOid 1), (''nombre'', BStr ''Ana''),
                                 (''activo'', BBool True)]],
                 transacciones = [], productos = []\<rparr>,
      oid_counter = 2, listening = True\<rparr>) \<and>
   delete_api_huespedes_id (\<lambda>n. 1700000000000 + n)
     \<lparr>db = Some \<lparr>huespedes = [[(''_id'', BOid 1), (''nombre'', BStr ''Ana''),
                                 (''activo'', BBool True)]],
                 transacciones = [], productos = []\<rparr>,
      oid_counter = 2, listening = True\<rparr> ''00000000000000000000000b'' =
     (\<lparr>status = 404,
       body = Doc [(''error'', BStr (''Hu'' @ [CHR 0xC3, CHR 0xA9] @ ''sped no encontrado''))]\<rparr>,
      \<lparr>db = Some \<lparr>huespedes = [[(''_id'', BOid 1), (''nombre'', BStr ''Ana''),
                                 (''activo'', BBool True)]],
                 transacciones = [], productos = []\<rparr>,
      oid_counter = 2, listening = True\<rparr>)"
proof -
  let ?d = "\<lparr>huespedes = [[(''_id'', BOid 1), (''nombre'', BStr ''Ana''),
                                 (''activo'', BBool True)]],
                 transacciones = [], productos = []\<rparr>"
  let ?s = "\<lparr>db = Some ?d, oid_counter = 2, listening = True\<rparr>"
  let ?b = "[(''_id'', BStr ''x''), (''nombre'', BStr ''Bea'')]"
  have 1: "db ?s = Some ?d"
    by simp
  have 3: "\<forall>g\<in>set (huespedes ?d). field_of ''_id'' g \<noteq> Some (BOid 11)"
    by (simp add: field_of_def)
  have 4: "list_all top_level_name (map fst (AList.delete ''_id'' ?b))"
    by (simp add: top_level_name_def)
  show ?thesis
    by (rule huesped_not_found[OF 1 ObjectId_example_2 3 4])
qed

theorem put_huesped_strips_id_witness:
  "\<exists>g'. put_api_huespedes_id (\<lambda>n. 1700000000000 + n)
     \<lparr>db = Some \<lparr>huespedes = [[(''_id'', BOid 1), (''nombre'', BStr ''Ana''),
                                 (''activo'', BBool True)]],
                 transacciones = [], productos = []\<rparr>,
      oid_counter = 2, listening = True\<rparr> ''000000000000000000000001''
     [(''_id'', BStr ''x''), (''nombre'', BStr ''Bea'')] =
     (\<lparr>status = 200,
       body = Doc [(''success'', BBool True),
                   (''message'', BStr (''Hu'' @ [CHR 0xC3, CHR 0xA9] @
                      ''sped actualizado exitosamente''))]\<rparr>,
      \<lparr>db = Some \<lparr>huespedes = [g'], transacciones = [], productos = []\<rparr>,
       oid_counter = 2, listening = True\<rparr>) \<and>
     field_of ''_id'' g' = Some (BOid 1) \<and>
     field_of ''updatedAt'' g' = Some (BDate 1700000000000) \<and>
     field_of ''nombre'' g' = Some (BStr ''Bea'') \<and>
     field_of ''activo'' g' = Some (BBool True)"
proof -
  let ?g = "[(''_id'', BOid 1), (''nombre'', BStr ''Ana''), (''activo'', BBool True)]"
  let ?d = "\<lparr>huespedes = [?g], transacciones = [], productos = []\<rparr>"
  let ?s = "\<lparr>db = Some ?d, oid_counter = 2, listening = True\<rparr>"
  let ?b = "[(''_id'', BStr ''x''), (''nombre'', BStr ''Bea'')]"
  let ?c = "\<lambda>n::nat. 1700000000000 + n"
  have 1: "db ?s = Some ?d"
    by simp
  have 3: "huespedes ?d = [] @ ?g # []"
    by simp
  have 4: "\<forall>x\<in>set []. field_of ''_id'' x \<noteq> Some (BOid 1)"
    by simp
  have 5: "field_of ''_id'' ?g = Some (BOid 1)"
    by (simp add: field_of_def)
  have 6: "list_all top_level_name (map fst (AList.delete ''_id'' ?b))"
    by (simp add: top_level_name_def)
  from put_huesped_strips_id[OF 1 ObjectId_example_1 3 4 5 6, of ?c] obtain g' where
    a: "put_api_huespedes_id ?c ?s ''000000000000000000000001'' ?b =
           (\<lparr>status = 200,
             body = Doc [(''success'', BBool True),
                         (''message'', BStr (''Hu'' @ [CHR 0xC3, CHR 0xA9] @
                            ''sped actualizado exitosamente''))]\<rparr>,
            ?s\<lparr>db := Some (?d\<lparr>huespedes := [] @ g' # []\<rparr>)\<rparr>)" and
    b: "field_of ''_id'' g' = field_of ''_id'' ?g" and
    c: "field_of ''updatedAt'' g' = Some (BDate (?c 0))" and
    d: "\<forall>k. k \<noteq> ''_id'' \<and> k \<noteq> ''updatedAt'' \<longrightarrow>
              field_of k g' = (case field_of k ?b of Some v \<Rightarrow> Some v | None \<Rightarrow> field_of k ?g)"
    by (elim exE conjE) (rule that)
  from d have e: "field_of ''nombre'' g' = Some (BStr ''Bea'')"
    and f: "field_of ''activo'' g' = Some (BBool True)"
    by (simp_all add: field_of_def)
  from a b c e f 5 show ?thesis
    by (intro exI[of _ g']) simp
qed

section \<open>Soft delete\<close>

lemma set_sort_desc: "set (sort_desc k coll) = set coll"
  by (simp add: sort_desc_def)

lemma updateOne_ids:
  "field_of ''_id'' sets = None \<Longrightarrow>
     map (field_of ''_id'') (fst (updateOne q sets coll)) = map (field_of ''_id'') coll"
  by (induction coll) (auto simp: field_of_merge split: prod.split)

lemma count_by_ids:
  "length (filter (\<lambda>g. field_of ''_id'' g = v) coll) =
     length (filter (\<lambda>x. x = v) (map (field_of ''_id'') coll))"
  by (induction coll) auto

lemma updateOne_count:
  assumes "field_of ''_id'' sets = None"
  shows "length (filter (\<lambda>g. field_of ''_id'' g = v) (fst (updateOne q sets coll))) =
           length (filter (\<lambda>g. field_of ''_id'' g = v) coll)"
  by (simp only: count_by_ids updateOne_ids[OF assms])

lemma insertOne_count:
  assumes "length (filter (\<lambda>g. field_of ''_id'' g = v) coll) = 1"
  shows "length (filter (\<lambda>g. field_of ''_id'' g = v) (fst (fst (insertOne ctr doc coll)))) = 1"
proof -
  from assms have "filter (\<lambda>g. field_of ''_id'' g = v) coll \<noteq> []"
    by auto
  then have "v \<in> set (map (field_of ''_id'') coll)"
    by (auto simp: filter_empty_conv)
  with assms show ?thesis
    by (auto simp: insertOne_cases Let_def)
qed

lemma post_api_huespedes_db:
  assumes "db s = Some d"
  shows "\<exists>doc. db (snd (post_api_huespedes c s b)) =
           Some (d\<lparr>huespedes := fst (fst (insertOne (oid_counter s) doc (huespedes d)))\<rparr>)"
proof -
  let ?doc = "AList.update ''createdAt'' (BDate (c 1))
              (AList.update ''activo'' (BBool True)
                 (AList.update ''fechaRegistro'' (BStr (toISOString (c 0))) b))"
  have "db (snd (post_api_huespedes c s b)) =
           Some (d\<lparr>huespedes := fst (fst (insertOne (oid_counter s) ?doc (huespedes d)))\<rparr>)"
    using assms
    by (simp add: post_api_huespedes_def db_of_def Let_def split: prod.split)
  then show ?thesis by blast
qed

lemma put_api_huespedes_id_db:
  assumes "db s = Some d"
  shows "db (snd (put_api_huespedes_id c s p b)) = Some d \<or>
         (\<exists>q sets. field_of ''_id'' sets = None \<and>
            db (snd (put_api_huespedes_id c s p b)) =
              Some (d\<lparr>huespedes := fst (updateOne q sets (huespedes d))\<rparr>))"
proof (cases "ObjectId p")
  case (Inl e)
  with assms show ?thesis
    by (simp add: put_api_huespedes_id_def db_of_def)
next
  case (Inr i)
  let ?sets = "AList.update ''updatedAt'' (BDate (c 0)) (AList.delete ''_id'' b)"
  have "field_of ''_id'' ?sets = None"
    by (simp add: field_of_update field_of_delete)
  moreover have "db (snd (put_api_huespedes_id c s p b)) =
      Some (d\<lparr>huespedes := fst (updateOne [(''_id'', BOid i)] ?sets (huespedes d))\<rparr>)"
    using assms Inr by (simp add: put_api_huespedes_id_def db_of_def split: prod.split)
  ultimately show ?thesis by blast
qed

lemma delete_api_huespedes_id_db:
  assumes "db s = Some d"
  shows "db (snd (delete_api_huespedes_id c s p)) = Some d \<or>
         (\<exists>q sets. field_of ''_id'' sets = None \<and>
            db (snd (delete_api_huespedes_id c s p)) =
              Some (d\<lparr>huespedes := fst (updateOne q sets (huespedes d))\<rparr>))"
proof (cases "ObjectId p")
  case (Inl e)
  with assms show ?thesis
    by (simp add: delete_api_huespedes_id_def db_of_def)
next
  case (Inr i)
  let ?sets = "[(''activo'', BBool False), (''deletedAt'', BDate (c 0))]"
  have "field_of ''_id'' ?sets = None"
    by (simp add: field_of_def)
  moreover have "db (snd (delete_api_huespedes_id c s p)) =
      Some (d\<lparr>huespedes := fst (updateOne [(''_id'', BOid i)] ?sets (huespedes d))\<rparr>)"
    using assms Inr by (simp add: delete_api_huespedes_id_def db_of_def split: prod.split)
  ultimately show ?thesis by blast
qed

lemma post_api_transacciones_db:
  assumes "db s = Some d"
  shows "\<exists>d'. db (snd (post_api_transacciones c s b)) = Some d' \<and> huespedes d' = huespedes d"
  using assms
  by (auto simp: post_api_transacciones_def db_of_def Let_def split: prod.split)

lemma post_api_productos_db:
  assumes "db s = Some d"
  shows "\<exists>d'. db (snd (post_api_productos c s b)) = Some d' \<and> huespedes d' = huespedes d"
  using assms
  by (auto simp: post_api_productos_def db_of_def Let_def split: prod.split)

lemma sole_guest_route:
  assumes "sole_guest i s"
  shows "sole_guest i (snd (route c s r))"
proof -
  from assms obtain d where d: "db s = Some d"
    and one: "length (filter (\<lambda>g. field_of ''_id'' g = Some (BOid i)) (huespedes d)) = 1"
    by (auto simp: sole_guest_def split: option.splits)
  show ?thesis
  proof (cases r)
    case (POST_huespedes b)
    from post_api_huespedes_db[OF d, of c b] insertOne_count[OF one]
    show ?thesis by (auto simp: POST_huespedes sole_guest_def)
  next
    case (PUT_huespedes_id p b)
    from put_api_huespedes_id_db[OF d, of c p b] one
    show ?thesis by (auto simp: PUT_huespedes_id sole_guest_def updateOne_count)
  next
    case (DELETE_huespedes_id p)
    from delete_api_huespedes_id_db[OF d, of c p] one
    show ?thesis by (auto simp: DELETE_huespedes_id sole_guest_def updateOne_count)
  next
    case (POST_transacciones b)
    from post_api_transacciones_db[OF d, of c b] one
    show ?thesis by (auto simp: POST_transacciones sole_guest_def)
  next
    case (POST_productos b)
    from post_api_productos_db[OF d, of c b] one
    show ?thesis by (auto simp: POST_productos sole_guest_def)
  qed (use assms in simp_all)
qed

lemma sole_guest_serve: "sole_guest i s \<Longrightarrow> sole_guest i (serve s rs)"
  by (induction rs arbitrary: s) (simp_all add: sole_guest_route)

lemma sole_guest_created:
  assumes "status (fst (post_api_huespedes clock s b)) = 201"
    and "body (fst (post_api_huespedes clock s b)) = Doc e"
    and "field_of ''id'' e = Some (BOid i)"
  shows "sole_guest i (snd (post_api_huespedes clock s b))"
proof -
  from post_api_huespedes_201[OF assms(1)] obtain d g v where
    d1: "db (snd (post_api_huespedes clock s b)) =
            Some (d\<lparr>huespedes := huespedes d @ [g]\<rparr>)" and
    env: "body (fst (post_api_huespedes clock s b)) =
             Doc [(''success'', BBool True), (''id'', v),
                  (''message'', BStr (''Hu'' @ [CHR 0xC3, CHR 0xA9] @
                     ''sped registrado exitosamente''))]" and
    g_id: "field_of ''_id'' g = Some v" and
    fresh: "Some v \<notin> field_of ''_id'' ` set (huespedes d)"
    by (elim exE conjE) (rule that)
  from env assms(2,3) have v: "v = BOid i"
    by (auto simp: field_of_def)
  have "filter (\<lambda>g. field_of ''_id'' g = Some (BOid i)) (huespedes d) = []"
    using fresh v by (auto simp: filter_empty_conv dest: not_in_ids)
  with d1 g_id v show ?thesis
    by (simp add: sole_guest_def)
qed

lemma sole_guest_split:
  assumes "sole_guest i s"
  shows "\<exists>d pre g post. db s = Some d \<and> huespedes d = pre @ g # post \<and>
           field_of ''_id'' g = Some (BOid i) \<and>
           (\<forall>x\<in>set pre. field_of ''_id'' x \<noteq> Some (BOid i)) \<and>
           (\<forall>x\<in>set post. field_of ''_id'' x \<noteq> Some (BOid i))"
proof -
  from assms obtain d where d: "db s = Some d"
    and one: "length (filter (\<lambda>g. field_of ''_id'' g = Some (BOid i)) (huespedes d)) = 1"
    by (auto simp: sole_guest_def split: option.splits)
  from one obtain g where
    "filter (\<lambda>g. field_of ''_id'' g = Some (BOid i)) (huespedes d) = [g]"
    by (auto simp: length_Suc_conv)
  then obtain pre post where "huespedes d = pre @ g # post"
    "\<forall>x\<in>set pre. field_of ''_id'' x \<noteq> Some (BOid i)"
    "field_of ''_id'' g = Some (BOid i)"
    "\<forall>x\<in>set post. field_of ''_id'' x \<noteq> Some (BOid i)"
    by (auto simp: filter_eq_Cons_iff filter_empty_conv eq_commute[of "[]"])
  with d show ?thesis by blast
qed

lemma soft_delete_sole_guest:
  assumes sole: "sole_guest i s1"
    and param: "ObjectId p = Inr i"
    and s2: "s2 = snd (delete_api_huespedes_id clock' s1 p)"
  shows "\<exists>d2 g. fst (delete_api_huespedes_id clock' s1 p) =
             \<lparr>status = 200,
              body = Doc [(''success'', BBool True),
                          (''message'', BStr (''Hu'' @ [CHR 0xC3, CHR 0xA9] @
                             ''sped eliminado exitosamente''))]\<rparr> \<and>
           db s2 = Some d2 \<and> g \<in> set (huespedes d2) \<and>
           field_of ''_id'' g = Some (BOid i) \<and>
           field_of ''activo'' g = Some (BBool False) \<and>
           field_of ''deletedAt'' g = Some (BDate (clock' 0)) \<and>
           (\<exists>docs. get_api_huespedes s2 = \<lparr>status = 200, body = Docs docs\<rparr> \<and>
                   (\<forall>x\<in>set docs. field_of ''_id'' x \<noteq> Some (BOid i))) \<and>
           get_api_huespedes_id s2 p = \<lparr>status = 200, body = Doc g\<rparr>"
proof -
  from sole_guest_split[OF sole] obtain d pre g0 post where
    d1: "db s1 = Some d" and
    coll: "huespedes d = pre @ g0 # post" and
    g0_id: "field_of ''_id'' g0 = Some (BOid i)" and
    pre: "\<forall>x\<in>set pre. field_of ''_id'' x \<noteq> Some (BOid i)" and
    post: "\<forall>x\<in>set post. field_of ''_id'' x \<noteq> Some (BOid i)"
    by (elim exE conjE) (rule that)
  let ?sets = "[(''activo'', BBool False), (''deletedAt'', BDate (clock' 0))]"
  let ?g = "AList.merge g0 ?sets"
  let ?d2 = "d\<lparr>huespedes := pre @ ?g # post\<rparr>"
  have nm: "\<forall>x\<in>set pre. \<not> matches [(''_id'', BOid i)] x"
    using pre by (simp add: matches_id)
  have m: "matches [(''_id'', BOid i)] g0"
    using g0_id by (simp add: matches_id)
  have u: "updateOne [(''_id'', BOid i)] ?sets (huespedes d) = (pre @ ?g # post, 1)"
    unfolding coll by (rule updateOne_first_match[OF nm m])
  have del: "delete_api_huespedes_id clock' s1 p =
      (\<lparr>status = 200,
        body = Doc [(''success'', BBool True),
                    (''message'', BStr (''Hu'' @ [CHR 0xC3, CHR 0xA9] @
                       ''sped eliminado exitosamente''))]\<rparr>,
       s1\<lparr>db := Some ?d2\<rparr>)"
    using d1 param u by (simp add: delete_api_huespedes_id_def db_of_def)
  have r: "fst (delete_api_huespedes_id clock' s1 p) =
             \<lparr>status = 200,
              body = Doc [(''success'', BBool True),
                          (''message'', BStr (''Hu'' @ [CHR 0xC3, CHR 0xA9] @
                             ''sped eliminado exitosamente''))]\<rparr>"
    unfolding del by simp
  have d2: "db s2 = Some ?d2"
    unfolding s2 del by simp
  have mem: "?g \<in> set (huespedes ?d2)"
    by simp
  have g_id: "field_of ''_id'' ?g = Some (BOid i)"
    using g0_id by (simp add: field_of_update)
  have g_activo: "field_of ''activo'' ?g = Some (BBool False)"
    by (simp add: field_of_update)
  have g_deleted: "field_of ''deletedAt'' ?g = Some (BDate (clock' 0))"
    by (simp add: field_of_update)
  have m': "matches [(''_id'', BOid i)] ?g"
    using g_id by (simp add: matches_id)
  have one: "get_api_huespedes_id s2 p = \<lparr>status = 200, body = Doc ?g\<rparr>"
    using d2 param findOne_first_match[OF nm m', of post]
    by (simp add: get_api_huespedes_id_def db_of_def)
  let ?docs = "sort_desc ''fechaRegistro'' (find_where [(''activo'', BBool True)] (pre @ ?g # post))"
  have list: "get_api_huespedes s2 = \<lparr>status = 200, body = Docs ?docs\<rparr>"
    using d2 by (simp add: get_api_huespedes_def db_of_def)
  have "\<not> matches [(''activo'', BBool True)] ?g"
    using g_activo by (simp add: matches_def)
  then have "set ?docs \<subseteq> set pre \<union> set post"
    by (auto simp: set_sort_desc find_where_def)
  with pre post have excl: "\<forall>x\<in>set ?docs. field_of ''_id'' x \<noteq> Some (BOid i)"
    by blast
  from list excl have l: "\<exists>docs. get_api_huespedes s2 = \<lparr>status = 200, body = Docs docs\<rparr> \<and>
                   (\<forall>x\<in>set docs. field_of ''_id'' x \<noteq> Some (BOid i))"
    by blast
  from r d2 mem g_id g_activo g_deleted l one show ?thesis
    by (intro exI[of _ ?d2] exI[of _ ?g] conjI)
qed

text \<open>
  C5. Let \<^verbatim>\<open>POST /api/huespedes\<close> create a guest (201) and return the identifier \<open>i\<close>,
  let the server then handle any requests, and let \<^verbatim>\<open>DELETE /api/huespedes/:id\<close> be
  called with a parameter \<open>p\<close> that denotes \<open>i\<close>. Then the delete answers 200; the
  collection still holds a guest document with this \<^verbatim>\<open>_id\<close>, now with
  \<^verbatim>\<open>activo = false\<close> and \<^verbatim>\<open>deletedAt\<close> the clock reading; \<^verbatim>\<open>GET /api/huespedes\<close> lists no
  document with this \<^verbatim>\<open>_id\<close>; and \<^verbatim>\<open>GET /api/huespedes/:id\<close> answers 200 with that
  document.
\<close>

theorem huesped_soft_delete:
  assumes created: "status (fst (post_api_huespedes clock s b)) = 201"
    and envelope: "body (fst (post_api_huespedes clock s b)) = Doc e"
    and created_id: "field_of ''id'' e = Some (BOid i)"
    and later: "s1 = serve (snd (post_api_huespedes clock s b)) requests"
    and param: "ObjectId p = Inr i"
    and s2: "s2 = snd (delete_api_huespedes_id clock' s1 p)"
  shows "\<exists>d2 g. fst (delete_api_huespedes_id clock' s1 p) =
             \<lparr>status = 200,
              body = Doc [(''success'', BBool True),
                          (''message'', BStr (''Hu'' @ [CHR 0xC3, CHR 0xA9] @
                             ''sped eliminado exitosamente''))]\<rparr> \<and>
           db s2 = Some d2 \<and> g \<in> set (huespedes d2) \<and>
           field_of ''_id'' g = Some (BOid i) \<and>
           field_of ''activo'' g = Some (BBool False) \<and>
           field_of ''deletedAt'' g = Some (BDate (clock' 0)) \<and>
           (\<exists>docs. get_api_huespedes s2 = \<lparr>status = 200, body = Docs docs\<rparr> \<and>
                   (\<forall>x\<in>set docs. field_of ''_id'' x \<noteq> Some (BOid i))) \<and>
           get_api_huespedes_id s2 p = \<lparr>status = 200, body = Doc g\<rparr>"
proof -
  have "sole_guest i s1"
    unfolding later by (rule sole_guest_serve[OF sole_guest_created[OF created envelope created_id]])
  then show ?thesis
    using param s2 by (rule soft_delete_sole_guest)
qed

theorem huesped_soft_delete_witness:
  "\<exists>g. db (snd (delete_api_huespedes_id (\<lambda>n. 1800000000000 + n)
             (serve (snd (post_api_huespedes (\<lambda>n. 1700000000000 + n)
                \<lparr>db = Some \<lparr>huespedes = [], transacciones = [], productos = []\<rparr>,
                 oid_counter = 1, listening = True\<rparr> [(''nombre'', BStr ''Ana'')]))
                [(\<lambda>n. 1750000000000 + n,
                  PUT_huespedes_id ''000000000000000000000001'' [(''nombre'', BStr ''Bea'')])])
             ''000000000000000000000001'')) =
         Some \<lparr>huespedes = [g], transacciones = [], productos = []\<rparr> \<and>
       field_of ''_id'' g = Some (BOid 1) \<and>
       field_of ''activo'' g = Some (BBool False) \<and>
       field_of ''deletedAt'' g = Some (BDate 1800000000000) \<and>
       get_api_huespedes_id
         (snd (delete_api_huespedes_id (\<lambda>n. 1800000000000 + n)
             (serve (snd (post_api_huespedes (\<lambda>n. 1700000000000 + n)
                \<lparr>db = Some \<lparr>huespedes = [], transacciones = [], productos = []\<rparr>,
                 oid_counter = 1, listening = True\<rparr> [(''nombre'', BStr ''Ana'')]))
                [(\<lambda>n. 1750000000000 + n,
                  PUT_huespedes_id ''000000000000000000000001'' [(''nombre'', BStr ''Bea'')])])
             ''000000000000000000000001''))
         ''000000000000000000000001'' = \<lparr>status = 200, body = Doc g\<rparr>"
proof -
  let ?c = "\<lambda>n::nat. 1700000000000 + n"
  let ?c' = "\<lambda>n::nat. 1800000000000 + n"
  let ?d = "\<lparr>huespedes = [], transacciones = [], productos = []\<rparr>"
  let ?s = "\<lparr>db = Some ?d, oid_counter = 1, listening = True\<rparr>"
  let ?b = "[(''nombre'', BStr ''Ana'')]"
  let ?p = "''000000000000000000000001''"
  let ?rs = "[(\<lambda>n::nat. 1750000000000 + n, PUT_huespedes_id ?p [(''nombre'', BStr ''Bea'')])]"
  let ?e = "[(''success'', BBool True), (''id'', BOid 1),
             (''message'', BStr (''Hu'' @ [CHR 0xC3, CHR 0xA9] @ ''sped registrado exitosamente''))]"
  let ?s1 = "serve (snd (post_api_huespedes ?c ?s ?b)) ?rs"
  let ?s2 = "snd (delete_api_huespedes_id ?c' ?s1 ?p)"
  have 1: "status (fst (post_api_huespedes ?c ?s ?b)) = 201"
    by (simp add: post_api_huespedes_def db_of_def insertOne_def serializable_def field_of_def Let_def)
  have 2: "body (fst (post_api_huespedes ?c ?s ?b)) = Doc ?e"
    by (simp add: post_api_huespedes_def db_of_def insertOne_def serializable_def field_of_def Let_def)
  have 3: "field_of ''id'' ?e = Some (BOid 1)"
    by (simp add: field_of_def)
  from huesped_soft_delete[where requests = ?rs and clock' = ?c', OF 1 2 3 refl ObjectId_example_1 refl]
  obtain d2 g where
    b: "db ?s2 = Some d2" and
    m: "g \<in> set (huespedes d2)" and
    c: "field_of ''_id'' g = Some (BOid 1)" "field_of ''activo'' g = Some (BBool False)"
       "field_of ''deletedAt'' g = Some (BDate (?c' 0))" and
    o: "get_api_huespedes_id ?s2 ?p = \<lparr>status = 200, body = Doc g\<rparr>"
    by (elim exE conjE) (rule that)
  have "\<exists>g'. db ?s2 = Some \<lparr>huespedes = [g'], transacciones = [], productos = []\<rparr>"
    by (simp add: post_api_huespedes_def put_api_huespedes_id_def delete_api_huespedes_id_def
        db_of_def insertOne_def serializable_def field_of_def matches_def ObjectId_example_1 Let_def)
  with b m have "db ?s2 = Some \<lparr>huespedes = [g], transacciones = [], productos = []\<rparr>"
    by auto
  with c o show ?thesis
    by (intro exI[of _ g]) simp
qed

section \<open>Malformed identifiers\<close>

text \<open>
  C2, as stated, fails: the handlers do not validate the identifier. For the parameter
  \<^verbatim>\<open>xyz\<close> the \<^verbatim>\<open>ObjectId\<close> constructor throws inside the \<^verbatim>\<open>try\<close> block and the
  answer is 500, neither 400 nor 404.
\<close>

theorem malformed_id_counterexample:
  "ObjectId ''xyz'' = Inl BSONError \<and>
   status (get_api_huespedes_id
     \<lparr>db = Some \<lparr>huespedes = [[(''_id'', BOid 1), (''nombre'', BStr ''Ana''),
                                 (''activo'', BBool True)]],
                 transacciones = [], productos = []\<rparr>,
      oid_counter = 2, listening = True\<rparr> ''xyz'') = 500 \<and>
   status (fst (put_api_huespedes_id (\<lambda>n. 1700000000000 + n)
     \<lparr>db = Some \<lparr>huespedes = [[(''_id'', BOid 1), (''nombre'', BStr ''Ana''),
                                 (''activo'', BBool True)]],
                 transacciones = [], productos = []\<rparr>,
      oid_counter = 2, listening = True\<rparr> ''xyz'' [(''nombre'', BStr ''Bea'')])) = 500 \<and>
   status (get_api_huespedes_id
     \<lparr>db = Some \<lparr>huespedes = [[(''_id'', BOid 1), (''nombre'', BStr ''Ana''),
                                 (''activo'', BBool True)]],
                 transacciones = [], productos = []\<rparr>,
      oid_counter = 2, listening = True\<rparr> ''xyz'') \<notin> {400, 404}"
  by (simp add: ObjectId_def get_api_huespedes_id_def put_api_huespedes_id_def db_of_def
      error_500_def)

text \<open>
  C2, amended. For a parameter that is not a well-formed identifier, the guest handlers
  \<^verbatim>\<open>GET\<close>, \<^verbatim>\<open>PUT\<close> and \<^verbatim>\<open>DELETE /api/huespedes/:id\<close> answer 500 with their fixed
  message (the exception itself is not sent) and leave the state as it was.
\<close>

theorem malformed_id_500:
  assumes "ObjectId p = Inl e"
  shows "get_api_huespedes_id s p =
           \<lparr>status = 500,
            body = Doc [(''error'', BStr (''Error al obtener hu'' @ [CHR 0xC3, CHR 0xA9] @
                          ''sped''))]\<rparr> \<and>
         put_api_huespedes_id clock s p b =
           (\<lparr>status = 500,
             body = Doc [(''error'', BStr (''Error al actualizar hu'' @ [CHR 0xC3, CHR 0xA9] @
                           ''sped''))]\<rparr>, s) \<and>
         delete_api_huespedes_id clock s p =
           (\<lparr>status = 500,
             body = Doc [(''error'', BStr (''Error al eliminar hu'' @ [CHR 0xC3, CHR 0xA9] @
                           ''sped''))]\<rparr>, s)"
  using assms
  by (cases "db s")
    (simp_all add: get_api_huespedes_id_def put_api_huespedes_id_def
      delete_api_huespedes_id_def db_of_def error_500_def)

theorem malformed_id_500_witness:
  "get_api_huespedes_id
     \<lparr>db = Some \<lparr>huespedes = [], transacciones = [], productos = []\<rparr>,
      oid_counter = 2, listening = True\<rparr> ''no-es-un-id'' =
     \<lparr>status = 500,
      body = Doc [(''error'', BStr (''Error al obtener hu'' @ [CHR 0xC3, CHR 0xA9] @
                    ''sped''))]\<rparr> \<and>
   delete_api_huespedes_id (\<lambda>n. 1700000000000 + n)
     \<lparr>db = Some \<lparr>huespedes = [], transacciones = [], productos = []\<rparr>,
      oid_counter = 2, listening = True\<rparr> ''no-es-un-id'' =
     (\<lparr>status = 500,
       body = Doc [(''error'', BStr (''Error al eliminar hu'' @ [CHR 0xC3, CHR 0xA9] @
                     ''sped''))]\<rparr>,
      \<lparr>db = Some \<lparr>huespedes = [], transacciones = [], productos = []\<rparr>,
       oid_counter = 2, listening = True\<rparr>)"
proof -
  have h: "ObjectId ''no-es-un-id'' = Inl BSONError"
    by (simp add: ObjectId_def)
  from malformed_id_500[OF h] show ?thesis
    by blast
qed

section \<open>Running without a database\<close>

lemma start_no_uri:
  "start [] remote clock ctr = \<lparr>db = None, oid_counter = ctr, listening = True\<rparr>"
  by (simp add: start_def connectDB_def)

text \<open>
  C1, as stated, fails in its last part: started with no connection string, the server
  listens and \<^verbatim>\<open>GET /api/huespedes\<close> answers 500, but its message is the handler's
  fixed one, which does not name the database.
\<close>

theorem no_database_counterexample:
  "listening (start [] None (\<lambda>n. 1700000000000 + n) 0) \<and>
   fst (route (\<lambda>n. 1700000000000 + n) (start [] None (\<lambda>n. 1700000000000 + n) 0) GET_huespedes) =
     \<lparr>status = 500,
      body = Doc [(''error'', BStr (''Error al obtener hu'' @ [CHR 0xC3, CHR 0xA9] @
                    ''spedes''))]\<rparr> \<and>
   \<not> names_database (''Error al obtener hu'' @ [CHR 0xC3, CHR 0xA9] @ ''spedes'')"
  by (simp add: start_def connectDB_def get_api_huespedes_def db_of_def error_500_def
      names_database_def)

text \<open>
  C1, amended. Started with an empty \<^verbatim>\<open>MONGODB_URI\<close>, the server listens with \<^verbatim>\<open>db\<close>
  undefined, and every handler that reaches for the database answers 500 with its own
  fixed message and leaves the state as it was. Only the message of \<^verbatim>\<open>GET /api/ping\<close>
  names the database.
\<close>

theorem no_database_responses:
  assumes "s = start [] remote clock0 ctr"
  shows "listening s \<and> db s = None \<and>
    route clock s GET_huespedes =
      (\<lparr>status = 500,
        body = Doc [(''error'', BStr (''Error al obtener hu'' @ [CHR 0xC3, CHR 0xA9] @
                      ''spedes''))]\<rparr>, s) \<and>
    route clock s (GET_huespedes_id p) =
      (\<lparr>status = 500,
        body = Doc [(''error'', BStr (''Error al obtener hu'' @ [CHR 0xC3, CHR 0xA9] @
                      ''sped''))]\<rparr>, s) \<and>
    route clock s (POST_huespedes b) =
      (\<lparr>status = 500,
        body = Doc [(''error'', BStr (''Error al crear hu'' @ [CHR 0xC3, CHR 0xA9] @
                      ''sped''))]\<rparr>, s) \<and>
    route clock s (PUT_huespedes_id p b) =
      (\<lparr>status = 500,
        body = Doc [(''error'', BStr (''Error al actualizar hu'' @ [CHR 0xC3, CHR 0xA9] @
                      ''sped''))]\<rparr>, s) \<and>
    route clock s (DELETE_huespedes_id p) =
      (\<lparr>status = 500,
        body = Doc [(''error'', BStr (''Error al eliminar hu'' @ [CHR 0xC3, CHR 0xA9] @
                      ''sped''))]\<rparr>, s) \<and>
    route clock s GET_transacciones =
      (\<lparr>status = 500, body = Doc [(''error'', BStr ''Error al obtener transacciones'')]\<rparr>, s) \<and>
    route clock s (GET_transacciones_huesped h) =
      (\<lparr>status = 500, body = Doc [(''error'', BStr ''Error al obtener transacciones'')]\<rparr>, s) \<and>
    route clock s (POST_transacciones b) =
      (\<lparr>status = 500,
        body = Doc [(''error'', BStr (''Error al crear transacci'' @ [CHR 0xC3, CHR 0xB3] @
                      ''n''))]\<rparr>, s) \<and>
    route clock s (GET_productos c) =
      (\<lparr>status = 500, body = Doc [(''error'', BStr ''Error al obtener productos'')]\<rparr>, s) \<and>
    route clock s (POST_productos b) =
      (\<lparr>status = 500, body = Doc [(''error'', BStr ''Error al crear producto'')]\<rparr>, s) \<and>
    route clock s GET_ping =
      (\<lparr>status = 500,
        body = Doc [(''success'', BBool False),
                    (''error'', BStr (''Error de conexi'' @ [CHR 0xC3, CHR 0xB3] @
                       ''n a MongoDB''))]\<rparr>, s) \<and>
    names_database (''Error de conexi'' @ [CHR 0xC3, CHR 0xB3] @ ''n a MongoDB'') \<and>
    \<not> names_database (''Error al obtener hu'' @ [CHR 0xC3, CHR 0xA9] @ ''spedes'') \<and>
    \<not> names_database (''Error al obtener hu'' @ [CHR 0xC3, CHR 0xA9] @ ''sped'') \<and>
    \<not> names_database (''Error al crear hu'' @ [CHR 0xC3, CHR 0xA9] @ ''sped'') \<and>
    \<not> names_database (''Error al actualizar hu'' @ [CHR 0xC3, CHR 0xA9] @ ''sped'') \<and>
    \<not> names_database (''Error al eliminar hu'' @ [CHR 0xC3, CHR 0xA9] @ ''sped'') \<and>
    \<not> names_database ''Error al obtener transacciones'' \<and>
    \<not> names_database (''Error al crear transacci'' @ [CHR 0xC3, CHR 0xB3] @ ''n'') \<and>
    \<not> names_database ''Error al obtener productos'' \<and>
    \<not> names_database ''Error al crear producto''"
proof -
  have s: "s = \<lparr>db = None, oid_counter = ctr, listening = True\<rparr>"
    using assms by (simp add: start_no_uri)
  have a: "listening s \<and> db s = None"
    by (simp add: s)
  have g: "route clock s GET_huespedes =
      (\<lparr>status = 500,
        body = Doc [(''error'', BStr (''Error al obtener hu'' @ [CHR 0xC3, CHR 0xA9] @
                      ''spedes''))]\<rparr>, s)"
    "route clock s (GET_huespedes_id p) =
      (\<lparr>status = 500,
        body = Doc [(''error'', BStr (''Error al obtener hu'' @ [CHR 0xC3, CHR 0xA9] @
                      ''sped''))]\<rparr>, s)"
    "route clock s (POST_huespedes b) =
      (\<lparr>status = 500,
        body = Doc [(''error'', BStr (''Error al crear hu'' @ [CHR 0xC3, CHR 0xA9] @
                      ''sped''))]\<rparr>, s)"
    "route clock s (PUT_huespedes_id p b) =
      (\<lparr>status = 500,
        body = Doc [(''error'', BStr (''Error al actualizar hu'' @ [CHR 0xC3, CHR 0xA9] @
                      ''sped''))]\<rparr>, s)"
    "route clock s (DELETE_huespedes_id p) =
      (\<lparr>status = 500,
        body = Doc [(''error'', BStr (''Error al eliminar hu'' @ [CHR 0xC3, CHR 0xA9] @
                      ''sped''))]\<rparr>, s)"
    by (simp_all add: s get_api_huespedes_def get_api_huespedes_id_def post_api_huespedes_def
        put_api_huespedes_id_def delete_api_huespedes_id_def db_of_def error_500_def)
  have t: "route clock s GET_transacciones =
      (\<lparr>status = 500, body = Doc [(''error'', BStr ''Error al obtener transacciones'')]\<rparr>, s)"
    "route clock s (GET_transacciones_huesped h) =
      (\<lparr>status = 500, body = Doc [(''error'', BStr ''Error al obtener transacciones'')]\<rparr>, s)"
    "route clock s (POST_transacciones b) =
      (\<lparr>status = 500,
        body = Doc [(''error'', BStr (''Error al crear transacci'' @ [CHR 0xC3, CHR 0xB3] @
                      ''n''))]\<rparr>, s)"
    by (simp_all add: s get_api_transacciones_def get_api_transacciones_huesped_def
        post_api_transacciones_def db_of_def error_500_def)
  have p: "route clock s (GET_productos c) =
      (\<lparr>status = 500, body = Doc [(''error'', BStr ''Error al obtener productos'')]\<rparr>, s)"
    "route clock s (POST_productos b) =
      (\<lparr>status = 500, body = Doc [(''error'', BStr ''Error al crear producto'')]\<rparr>, s)"
    "route clock s GET_ping =
      (\<lparr>status = 500,
        body = Doc [(''success'', BBool False),
                    (''error'', BStr (''Error de conexi'' @ [CHR 0xC3, CHR 0xB3] @
                       ''n a MongoDB''))]\<rparr>, s)"
    by (simp_all add: s get_api_productos_def post_api_productos_def get_api_ping_def
        db_of_def error_500_def)
  have n: "names_database (''Error de conexi'' @ [CHR 0xC3, CHR 0xB3] @ ''n a MongoDB'')"
    "\<not> names_database (''Error al obtener hu'' @ [CHR 0xC3, CHR 0xA9] @ ''spedes'')"
    "\<not> names_database (''Error al obtener hu'' @ [CHR 0xC3, CHR 0xA9] @ ''sped'')"
    "\<not> names_database (''Error al crear hu'' @ [CHR 0xC3, CHR 0xA9] @ ''sped'')"
    "\<not> names_database (''Error al actualizar hu'' @ [CHR 0xC3, CHR 0xA9] @ ''sped'')"
    "\<not> names_database (''Error al eliminar hu'' @ [CHR 0xC3, CHR 0xA9] @ ''sped'')"
    "\<not> names_database ''Error al obtener transacciones''"
    "\<not> names_database (''Error al crear transacci'' @ [CHR 0xC3, CHR 0xB3] @ ''n'')"
    "\<not> names_database ''Error al obtener productos''"
    "\<not> names_database ''Error al crear producto''"
    by (simp_all add: names_database_def)
  from a g t p n show ?thesis
    by (intro conjI) simp_all
qed

theorem no_database_responses_witness:
  "listening (start [] None (\<lambda>n. 1700000000000 + n) 0) \<and>
   db (start [] None (\<lambda>n. 1700000000000 + n) 0) = None \<and>
   route (\<lambda>n. 1700000000000 + n) (start [] None (\<lambda>n. 1700000000000 + n) 0)
       (POST_huespedes [(''nombre'', BStr ''Ana'')]) =
     (\<lparr>status = 500,
       body = Doc [(''error'', BStr (''Error al crear hu'' @ [CHR 0xC3, CHR 0xA9] @
                     ''sped''))]\<rparr>,
      start [] None (\<lambda>n. 1700000000000 + n) 0)"
  using no_database_responses[OF refl, of None "\<lambda>n. 1700000000000 + n" 0
      "\<lambda>n. 1700000000000 + n" _ "[(''nombre'', BStr ''Ana'')]"]
  by blast

end
